theory Spec2Isabelle
  imports Main
begin

section \<open>Data model\<close>

text \<open>
  The relational store of the application, one list of rows per table of
  \<^verbatim>\<open>backend/prisma/migrations/20251111195400_init/migration.sql\<close>.
  Identifiers are the TEXT primary keys of the schema.  The generated primary keys of
  the join tables and the \<^verbatim>\<open>created_at\<close>/\<^verbatim>\<open>updated_at\<close> columns are
  left out: no handler modelled below reads them.
\<close>

type_synonym ident = string

text \<open>
  A point in time, as a \<^verbatim>\<open>DATETIME\<close> column stores it and \<^verbatim>\<open>new Date(...)\<close>
  yields it: milliseconds since the epoch.
\<close>

type_synonym instant = int

datatype PermissionLevel = NONE | MEMBER | LEADER

datatype TaskStatus = TODO | IN_PROGRESS | DONE

text \<open>The argument of \<^verbatim>\<open>checkCommitteePermission\<close>: \<^verbatim>\<open>PermissionLevel | 'ADMIN'\<close>.\<close>

datatype RequiredLevel = Level PermissionLevel | ADMIN

record organization =
  org_id :: ident
  org_name :: string
  org_description :: "string option"
  org_logoUrl :: "string option"
  adminUserId :: ident

record role =
  role_id :: ident
  role_name :: string
  role_organizationId :: ident

record committee =
  committee_id :: ident
  committee_name :: string
  committee_organizationId :: ident

record userRole =
  ur_userId :: ident
  ur_roleId :: ident

record roleCommitteePermission =
  rcp_roleId :: ident
  rcp_committeeId :: ident
  permissionLevel :: PermissionLevel

record task =
  task_id :: ident
  task_title :: string
  task_description :: "string option"
  task_status :: TaskStatus
  task_committeeId :: ident
  task_createdById :: ident
  task_dueDate :: "instant option"
  task_position :: int

record taskAssignment =
  ta_taskId :: ident
  ta_userId :: ident

record comment =
  comment_id :: ident
  comment_content :: string
  comment_taskId :: ident
  comment_userId :: ident

record database =
  users :: "ident list"
  organizations :: "organization list"
  roles :: "role list"
  committees :: "committee list"
  userRoles :: "userRole list"
  permissions :: "roleCommitteePermission list"
  tasks :: "task list"
  assignments :: "taskAssignment list"
  comments :: "comment list"

text \<open>
  A response that is not a success: the HTTP status and the \<^verbatim>\<open>error\<close> string of the
  JSON body.  A \<^verbatim>\<open>ZodError\<close> answers 400 with the issue list, written
  \<open>''ZodError''\<close> here; an exception of the ORM is caught by the handler and answers
  500.
\<close>

datatype http_error = HttpError nat string

abbreviation zod_error :: http_error where
  "zod_error \<equiv> HttpError 400 ''ZodError''"

abbreviation internal_error :: http_error where
  "internal_error \<equiv> HttpError 500 ''Internal server error''"

section \<open>Queries shared by the handlers\<close>

text \<open>\<^verbatim>\<open>prisma.organization.findFirst({ where: { adminUserId: userId } })\<close>\<close>

definition organization_findFirst_admin :: "database \<Rightarrow> ident \<Rightarrow> organization option" where
  "organization_findFirst_admin db userId =
     find (\<lambda>org. adminUserId org = userId) (organizations db)"

text \<open>\<^verbatim>\<open>prisma.organization.findFirst({ where: { id: organizationId, adminUserId: userId } })\<close>\<close>

definition organization_findFirst_id_admin ::
  "database \<Rightarrow> ident \<Rightarrow> ident \<Rightarrow> organization option" where
  "organization_findFirst_id_admin db organizationId userId =
     find (\<lambda>org. org_id org = organizationId \<and> adminUserId org = userId) (organizations db)"

text \<open>
  \<^verbatim>\<open>prisma.userRole.findMany({ where: { userId }, include: { role: { include:
  { permissions: { where: { committeeId } } } } } })\<close>: one entry per role assignment of
  the user, holding that role's permission rows for the committee
  (\<^verbatim>\<open>userRole.role.permissions\<close>).
\<close>

definition userRole_findMany ::
  "database \<Rightarrow> ident \<Rightarrow> ident \<Rightarrow> roleCommitteePermission list list" where
  "userRole_findMany db userId committeeId =
     map (\<lambda>ur. filter (\<lambda>p. rcp_roleId p = ur_roleId ur \<and> rcp_committeeId p = committeeId)
                   (permissions db))
         (filter (\<lambda>ur. ur_userId ur = userId) (userRoles db))"

definition committee_findUnique :: "database \<Rightarrow> ident \<Rightarrow> committee option" where
  "committee_findUnique db cid = find (\<lambda>c. committee_id c = cid) (committees db)"

definition task_findUnique :: "database \<Rightarrow> ident \<Rightarrow> task option" where
  "task_findUnique db tid = find (\<lambda>t. task_id t = tid) (tasks db)"

section \<open>The permission middleware (\<^verbatim>\<open>middleware/permissions.ts\<close>)\<close>

text \<open>
  The inner \<^verbatim>\<open>for (const permission of userRole.role.permissions)\<close> loop, started
  with the current \<^verbatim>\<open>highestPermission\<close>: LEADER is stored and the loop left
  (\<^verbatim>\<open>break\<close>); MEMBER is stored only over NONE.
\<close>

fun scan_permissions :: "PermissionLevel \<Rightarrow> roleCommitteePermission list \<Rightarrow> PermissionLevel" where
  "scan_permissions highestPermission [] = highestPermission"
| "scan_permissions highestPermission (p # ps) =
     (if permissionLevel p = LEADER then LEADER
      else if permissionLevel p = MEMBER \<and> highestPermission = NONE
        then scan_permissions MEMBER ps
      else scan_permissions highestPermission ps)"

text \<open>
  The outer \<^verbatim>\<open>for (const userRole of userRoles)\<close> loop with its
  \<^verbatim>\<open>if (highestPermission === PermissionLevel.LEADER) break\<close>.
\<close>

fun scan_userRoles ::
  "PermissionLevel \<Rightarrow> roleCommitteePermission list list \<Rightarrow> PermissionLevel" where
  "scan_userRoles highestPermission [] = highestPermission"
| "scan_userRoles highestPermission (rolePermissions # userRoles') =
     (let highestPermission' = scan_permissions highestPermission rolePermissions
      in if highestPermission' = LEADER then LEADER
         else scan_userRoles highestPermission' userRoles')"

text \<open>The level the middleware stores in \<^verbatim>\<open>req.userPermission\<close>.\<close>

definition highestPermission :: "database \<Rightarrow> ident \<Rightarrow> ident \<Rightarrow> PermissionLevel" where
  "highestPermission db userId committeeId =
     scan_userRoles NONE (userRole_findMany db userId committeeId)"

text \<open>
  What the middleware reads of the request: the authenticated user (set by the
  \<^verbatim>\<open>authenticate\<close> middleware, which is not part of the model), and the committee
  id of the route parameters and of the body.
\<close>

record request =
  req_userId :: "ident option"
  params_committeeId :: "ident option"
  body_committeeId :: "ident option"

text \<open>What the middleware leaves on the request when it calls \<^verbatim>\<open>next()\<close>.\<close>

record permission_request =
  req_isAdmin :: bool
  req_userPermission :: "PermissionLevel option"

text \<open>JavaScript truthiness of an optional string: undefined and the empty string are falsy.\<close>

definition truthy :: "string option \<Rightarrow> bool" where
  "truthy s = (case s of None \<Rightarrow> False | Some v \<Rightarrow> v \<noteq> [])"

text \<open>\<^verbatim>\<open>a || b\<close> on optional strings.\<close>

definition or_else :: "string option \<Rightarrow> string option \<Rightarrow> string option" where
  "or_else a b = (if truthy a then a else b)"

definition checkCommitteePermission ::
  "RequiredLevel \<Rightarrow> database \<Rightarrow> request \<Rightarrow> http_error + permission_request" where
  "checkCommitteePermission requiredLevel db req =
     (case req_userId req of
        None \<Rightarrow> Inl (HttpError 401 ''Unauthorized'')
      | Some userId \<Rightarrow>
          if userId = [] then Inl (HttpError 401 ''Unauthorized'')
          else
            (case or_else (params_committeeId req) (body_committeeId req) of
               None \<Rightarrow> Inl (HttpError 400 ''Committee ID required'')
             | Some committeeId \<Rightarrow>
                 if committeeId = [] then Inl (HttpError 400 ''Committee ID required'')
                 else if organization_findFirst_admin db userId \<noteq> None \<and> requiredLevel = ADMIN
                   then Inr \<lparr>req_isAdmin = True, req_userPermission = None\<rparr>
                 else
                   (let highest = highestPermission db userId committeeId
                    in if requiredLevel = Level LEADER
                       then (if highest \<noteq> LEADER
                             then Inl (HttpError 403
                                    ''Insufficient permissions. Leader access required.'')
                             else Inr \<lparr>req_isAdmin = False, req_userPermission = Some highest\<rparr>)
                       else if requiredLevel = Level MEMBER
                       then (if highest \<noteq> MEMBER \<and> highest \<noteq> LEADER
                             then Inl (HttpError 403
                                    ''Insufficient permissions. Member access required.'')
                             else Inr \<lparr>req_isAdmin = False, req_userPermission = Some highest\<rparr>)
                       else Inr \<lparr>req_isAdmin = False, req_userPermission = Some highest\<rparr>)))"

definition checkIsAdmin :: "database \<Rightarrow> ident option \<Rightarrow> http_error + permission_request" where
  "checkIsAdmin db userId =
     (case userId of
        None \<Rightarrow> Inl (HttpError 401 ''Unauthorized'')
      | Some u \<Rightarrow>
          if u = [] then Inl (HttpError 401 ''Unauthorized'')
          else if organization_findFirst_admin db u = None
            then Inl (HttpError 403 ''Admin access required'')
          else Inr \<lparr>req_isAdmin = True, req_userPermission = None\<rparr>)"

section \<open>Request validation (the zod schemas)\<close>

text \<open>
  A request body carries each field as absent (\<open>None\<close>) or as a value of the JSON type
  the schema declares.  A string that the schema also checks for a format
  (\<^verbatim>\<open>.datetime()\<close>, \<^verbatim>\<open>.url()\<close>) carries the outcome of that check, which is the
  validation library's: a well-formed URL carries its text, a well-formed datetime the
  instant it denotes, which is what \<^verbatim>\<open>new Date(dueDate)\<close> stores.  A schema's
  \<^verbatim>\<open>parse\<close> returns \<open>None\<close> where it throws a \<^verbatim>\<open>ZodError\<close>.
\<close>

datatype 'a checked = Malformed | Wellformed 'a

text \<open>
  A JSON number, which is all that \<^verbatim>\<open>z.number()\<close> asks for: an integer of any size,
  or a number that is not an integer.
\<close>

datatype js_number = Int_number int | Non_integer

text \<open>
  The \<^verbatim>\<open>position\<close> column is an \<^verbatim>\<open>Int\<close> of the ORM, a signed 32-bit integer: the
  ORM throws on an argument that is not an integer or is out of that range.
\<close>

definition int32 :: "int \<Rightarrow> bool" where
  "int32 i \<longleftrightarrow> - 2147483648 \<le> i \<and> i \<le> 2147483647"

definition prisma_Int :: "js_number \<Rightarrow> int option" where
  "prisma_Int n =
     (case n of
        Int_number i \<Rightarrow> if int32 i then Some i else None
      | Non_integer \<Rightarrow> None)"

text \<open>\<^verbatim>\<open>z.string().datetime().optional()\<close> and \<^verbatim>\<open>z.string().url().optional()\<close>\<close>

definition optional_checked :: "'a checked option \<Rightarrow> 'a option option" where
  "optional_checked f =
     (case f of None \<Rightarrow> Some None | Some Malformed \<Rightarrow> None | Some (Wellformed v) \<Rightarrow> Some (Some v))"

text \<open>\<^verbatim>\<open>z.enum(['TODO', 'IN_PROGRESS', 'DONE'])\<close>\<close>

definition parse_TaskStatus :: "string \<Rightarrow> TaskStatus option" where
  "parse_TaskStatus s =
     (if s = ''TODO'' then Some TODO
      else if s = ''IN_PROGRESS'' then Some IN_PROGRESS
      else if s = ''DONE'' then Some DONE
      else None)"

fun TaskStatus_string :: "TaskStatus \<Rightarrow> string" where
  "TaskStatus_string TODO = ''TODO''"
| "TaskStatus_string IN_PROGRESS = ''IN_PROGRESS''"
| "TaskStatus_string DONE = ''DONE''"

text \<open>\<^verbatim>\<open>z.enum(['NONE', 'MEMBER', 'LEADER'])\<close>\<close>

definition parse_PermissionLevel :: "string \<Rightarrow> PermissionLevel option" where
  "parse_PermissionLevel s =
     (if s = ''NONE'' then Some NONE
      else if s = ''MEMBER'' then Some MEMBER
      else if s = ''LEADER'' then Some LEADER
      else None)"

subsection \<open>\<^verbatim>\<open>createTaskSchema\<close>\<close>

record createTaskBody =
  ct_title :: "string option"
  ct_description :: "string option"
  ct_committeeId :: "ident option"
  ct_dueDate :: "instant checked option"
  ct_assigneeIds :: "ident list option"

record createTaskData =
  ctd_title :: string
  ctd_description :: "string option"
  ctd_committeeId :: ident
  ctd_dueDate :: "instant option"
  ctd_assigneeIds :: "ident list option"

definition createTaskSchema_parse :: "createTaskBody \<Rightarrow> createTaskData option" where
  "createTaskSchema_parse body =
     (case ct_title body of
        None \<Rightarrow> None
      | Some title \<Rightarrow>
          if length title < 1 then None
          else
            (case ct_committeeId body of
               None \<Rightarrow> None
             | Some committeeId \<Rightarrow>
                 (case optional_checked (ct_dueDate body) of
                    None \<Rightarrow> None
                  | Some dueDate \<Rightarrow>
                      Some \<lparr>ctd_title = title, ctd_description = ct_description body,
                            ctd_committeeId = committeeId, ctd_dueDate = dueDate,
                            ctd_assigneeIds = ct_assigneeIds body\<rparr>)))"

subsection \<open>\<^verbatim>\<open>updateTaskSchema\<close>\<close>

record updateTaskBody =
  ut_title :: "string option"
  ut_description :: "string option"
  ut_status :: "string option"
  ut_dueDate :: "instant checked option"
  ut_position :: "js_number option"
  ut_assigneeIds :: "ident list option"

record updateTaskData =
  utd_title :: "string option"
  utd_description :: "string option"
  utd_status :: "TaskStatus option"
  utd_dueDate :: "instant option"
  utd_position :: "js_number option"
  utd_assigneeIds :: "ident list option"

definition updateTaskSchema_parse :: "updateTaskBody \<Rightarrow> updateTaskData option" where
  "updateTaskSchema_parse body =
     (if (case ut_title body of None \<Rightarrow> False | Some title \<Rightarrow> length title < 1) then None
      else
        (case (case ut_status body of
                 None \<Rightarrow> Some None
               | Some s \<Rightarrow> map_option Some (parse_TaskStatus s)) of
           None \<Rightarrow> None
         | Some status \<Rightarrow>
             (case optional_checked (ut_dueDate body) of
                None \<Rightarrow> None
              | Some dueDate \<Rightarrow>
                  Some \<lparr>utd_title = ut_title body, utd_description = ut_description body,
                        utd_status = status, utd_dueDate = dueDate,
                        utd_position = ut_position body,
                        utd_assigneeIds = ut_assigneeIds body\<rparr>)))"

subsection \<open>\<^verbatim>\<open>updateTaskStatusSchema\<close>\<close>

record updateTaskStatusBody =
  uts_status :: "string option"
  uts_position :: "js_number option"

definition updateTaskStatusSchema_parse ::
  "updateTaskStatusBody \<Rightarrow> (TaskStatus \<times> js_number option) option" where
  "updateTaskStatusSchema_parse body =
     (case uts_status body of
        None \<Rightarrow> None
      | Some s \<Rightarrow>
          (case parse_TaskStatus s of
             None \<Rightarrow> None
           | Some status \<Rightarrow> Some (status, uts_position body)))"

subsection \<open>The comment schema \<^verbatim>\<open>z.object({ content: z.string().min(1) })\<close>\<close>

definition commentSchema_parse :: "string option \<Rightarrow> string option" where
  "commentSchema_parse content =
     (case content of
        None \<Rightarrow> None
      | Some c \<Rightarrow> if length c < 1 then None else Some c)"

subsection \<open>\<^verbatim>\<open>createOrganizationSchema\<close>\<close>

record createOrganizationBody =
  co_name :: "string option"
  co_description :: "string option"
  co_logoUrl :: "string checked option"

record createOrganizationData =
  cod_name :: string
  cod_description :: "string option"
  cod_logoUrl :: "string option"

definition createOrganizationSchema_parse ::
  "createOrganizationBody \<Rightarrow> createOrganizationData option" where
  "createOrganizationSchema_parse body =
     (case co_name body of
        None \<Rightarrow> None
      | Some name \<Rightarrow>
          if length name < 1 then None
          else
            (case optional_checked (co_logoUrl body) of
               None \<Rightarrow> None
             | Some logoUrl \<Rightarrow>
                 Some \<lparr>cod_name = name, cod_description = co_description body,
                       cod_logoUrl = logoUrl\<rparr>))"

subsection \<open>\<^verbatim>\<open>setPermissionsSchema\<close>\<close>

record permissionEntry =
  pe_committeeId :: "ident option"
  pe_permissionLevel :: "string option"

record setPermissionsBody =
  sp_roleId :: "ident option"
  sp_permissions :: "permissionEntry list option"

definition permissionEntry_parse :: "permissionEntry \<Rightarrow> (ident \<times> PermissionLevel) option" where
  "permissionEntry_parse e =
     (case pe_committeeId e of
        None \<Rightarrow> None
      | Some committeeId \<Rightarrow>
          (case pe_permissionLevel e of
             None \<Rightarrow> None
           | Some s \<Rightarrow>
               (case parse_PermissionLevel s of
                  None \<Rightarrow> None
                | Some level \<Rightarrow> Some (committeeId, level))))"

text \<open>An array schema: every element must parse.\<close>

fun parse_all :: "('a \<Rightarrow> 'b option) \<Rightarrow> 'a list \<Rightarrow> 'b list option" where
  "parse_all f [] = Some []"
| "parse_all f (x # xs) =
     (case f x of
        None \<Rightarrow> None
      | Some y \<Rightarrow> (case parse_all f xs of None \<Rightarrow> None | Some ys \<Rightarrow> Some (y # ys)))"

definition setPermissionsSchema_parse ::
  "setPermissionsBody \<Rightarrow> (ident \<times> (ident \<times> PermissionLevel) list) option" where
  "setPermissionsSchema_parse body =
     (case sp_roleId body of
        None \<Rightarrow> None
      | Some roleId \<Rightarrow>
          (case sp_permissions body of
             None \<Rightarrow> None
           | Some entries \<Rightarrow>
               (case parse_all permissionEntry_parse entries of
                  None \<Rightarrow> None
                | Some perms \<Rightarrow> Some (roleId, perms))))"

text \<open>
  The unique index \<^verbatim>\<open>role_committee_permissions_role_id_committee_id_key\<close>: at most
  one row per (role, committee).
\<close>

definition permission_key :: "roleCommitteePermission \<Rightarrow> ident \<times> ident" where
  "permission_key p = (rcp_roleId p, rcp_committeeId p)"

definition unique_permission_rows :: "roleCommitteePermission list \<Rightarrow> bool" where
  "unique_permission_rows ps = distinct (map permission_key ps)"

section \<open>Writes, with the constraints of the schema\<close>

text \<open>
  A write that violates a primary key, a unique index or a foreign key of
  \<^verbatim>\<open>migration.sql\<close> makes the ORM throw; it is \<open>None\<close> here and writes nothing (a
  single statement, or a nested write, is atomic).  The primary key of a new row is
  generated by the ORM and is an argument of the handler.
\<close>

text \<open>
  \<^verbatim>\<open>prisma.task.create\<close> with nested \<^verbatim>\<open>assignees: { create: [...] }\<close>: the range
  of \<^verbatim>\<open>position\<close>, primary key of \<^verbatim>\<open>tasks\<close>, foreign keys to \<^verbatim>\<open>committees\<close>
  and \<^verbatim>\<open>users\<close>, unique index \<^verbatim>\<open>task_assignments_task_id_user_id_key\<close>.
\<close>

definition task_create :: "database \<Rightarrow> task \<Rightarrow> ident list \<Rightarrow> database option" where
  "task_create db t assigneeIds =
     (if \<not> int32 (task_position t)
         \<or> task_id t \<in> set (map task_id (tasks db))
         \<or> committee_findUnique db (task_committeeId t) = None
         \<or> task_createdById t \<notin> set (users db)
         \<or> \<not> list_all (\<lambda>u. u \<in> set (users db)) assigneeIds
         \<or> \<not> distinct assigneeIds
      then None
      else Some (db\<lparr>tasks := tasks db @ [t],
                    assignments := assignments db @
                      map (\<lambda>u. \<lparr>ta_taskId = task_id t, ta_userId = u\<rparr>) assigneeIds\<rparr>))"

text \<open>
  The \<^verbatim>\<open>data\<close> of \<^verbatim>\<open>prisma.task.update\<close>: a field that is \<^verbatim>\<open>undefined\<close>
  (\<open>None\<close>) keeps its value.
\<close>

record taskUpdateData =
  upd_title :: "string option"
  upd_description :: "string option"
  upd_status :: "TaskStatus option"
  upd_dueDate :: "instant option"
  upd_position :: "js_number option"

text \<open>The row after the update; \<open>position\<close> is the position argument as the ORM accepted it.\<close>

definition update_fields :: "taskUpdateData \<Rightarrow> int option \<Rightarrow> task \<Rightarrow> task" where
  "update_fields data position t =
     t\<lparr>task_title := (case upd_title data of Some v \<Rightarrow> v | None \<Rightarrow> task_title t),
       task_description :=
         (case upd_description data of Some v \<Rightarrow> Some v | None \<Rightarrow> task_description t),
       task_status := (case upd_status data of Some v \<Rightarrow> v | None \<Rightarrow> task_status t),
       task_dueDate := (case upd_dueDate data of Some v \<Rightarrow> Some v | None \<Rightarrow> task_dueDate t),
       task_position := (case position of Some p \<Rightarrow> p | None \<Rightarrow> task_position t)\<rparr>"

text \<open>
  \<^verbatim>\<open>prisma.task.update({ where: { id }, data })\<close>: throws on a position that is not a
  32-bit integer, and when there is no such task.
\<close>

definition task_update :: "database \<Rightarrow> ident \<Rightarrow> taskUpdateData \<Rightarrow> database option" where
  "task_update db tid data =
     (case (case upd_position data of
              None \<Rightarrow> Some None
            | Some n \<Rightarrow> map_option Some (prisma_Int n)) of
        None \<Rightarrow> None
      | Some position \<Rightarrow>
          if task_findUnique db tid = None then None
          else Some (db\<lparr>tasks := map (\<lambda>t. if task_id t = tid
                                            then update_fields data position t else t)
                                     (tasks db)\<rparr>))"

text \<open>
  \<^verbatim>\<open>prisma.task.delete({ where: { id } })\<close> on a task that exists; its assignments
  and comments go with it (\<^verbatim>\<open>ON DELETE CASCADE\<close>).
\<close>

definition task_delete :: "database \<Rightarrow> ident \<Rightarrow> database" where
  "task_delete db tid =
     db\<lparr>tasks := filter (\<lambda>t. task_id t \<noteq> tid) (tasks db),
        assignments := filter (\<lambda>a. ta_taskId a \<noteq> tid) (assignments db),
        comments := filter (\<lambda>c. comment_taskId c \<noteq> tid) (comments db)\<rparr>"

text \<open>\<^verbatim>\<open>prisma.taskAssignment.deleteMany({ where: { taskId } })\<close>\<close>

definition taskAssignment_deleteMany :: "database \<Rightarrow> ident \<Rightarrow> database" where
  "taskAssignment_deleteMany db tid =
     db\<lparr>assignments := filter (\<lambda>a. ta_taskId a \<noteq> tid) (assignments db)\<rparr>"

text \<open>\<^verbatim>\<open>prisma.taskAssignment.createMany({ data })\<close>\<close>

definition taskAssignment_createMany :: "database \<Rightarrow> taskAssignment list \<Rightarrow> database option" where
  "taskAssignment_createMany db rows =
     (if \<not> distinct (map (\<lambda>a. (ta_taskId a, ta_userId a)) (assignments db @ rows))
         \<or> \<not> list_all (\<lambda>a. task_findUnique db (ta_taskId a) \<noteq> None) rows
         \<or> \<not> list_all (\<lambda>a. ta_userId a \<in> set (users db)) rows
      then None
      else Some (db\<lparr>assignments := assignments db @ rows\<rparr>))"

text \<open>\<^verbatim>\<open>prisma.comment.create\<close>: primary key, foreign keys to \<^verbatim>\<open>tasks\<close> and \<^verbatim>\<open>users\<close>.\<close>

definition comment_create :: "database \<Rightarrow> comment \<Rightarrow> database option" where
  "comment_create db c =
     (if comment_id c \<in> set (map comment_id (comments db))
         \<or> task_findUnique db (comment_taskId c) = None
         \<or> comment_userId c \<notin> set (users db)
      then None
      else Some (db\<lparr>comments := comments db @ [c]\<rparr>))"

text \<open>\<^verbatim>\<open>prisma.organization.create\<close>: primary key, foreign key to \<^verbatim>\<open>users\<close>.\<close>

definition organization_create :: "database \<Rightarrow> organization \<Rightarrow> database option" where
  "organization_create db org =
     (if org_id org \<in> set (map org_id (organizations db))
         \<or> adminUserId org \<notin> set (users db)
      then None
      else Some (db\<lparr>organizations := organizations db @ [org]\<rparr>))"

text \<open>\<^verbatim>\<open>prisma.roleCommitteePermission.deleteMany({ where: { roleId } })\<close>\<close>

definition permission_deleteMany :: "database \<Rightarrow> ident \<Rightarrow> database" where
  "permission_deleteMany db roleId =
     db\<lparr>permissions := filter (\<lambda>p. rcp_roleId p \<noteq> roleId) (permissions db)\<rparr>"

text \<open>
  \<^verbatim>\<open>prisma.roleCommitteePermission.createMany({ data })\<close>: unique index on
  (role, committee), foreign keys to \<^verbatim>\<open>roles\<close> and \<^verbatim>\<open>committees\<close>.
\<close>

definition role_findUnique :: "database \<Rightarrow> ident \<Rightarrow> role option" where
  "role_findUnique db rid = find (\<lambda>r. role_id r = rid) (roles db)"

definition permission_createMany ::
  "database \<Rightarrow> roleCommitteePermission list \<Rightarrow> database option" where
  "permission_createMany db rows =
     (if \<not> unique_permission_rows (permissions db @ rows)
         \<or> \<not> list_all (\<lambda>p. role_findUnique db (rcp_roleId p) \<noteq> None) rows
         \<or> \<not> list_all (\<lambda>p. committee_findUnique db (rcp_committeeId p) \<noteq> None) rows
      then None
      else Some (db\<lparr>permissions := permissions db @ rows\<rparr>))"

text \<open>
  \<^verbatim>\<open>prisma.committee.delete({ where: { id } })\<close>: throws when there is no such
  committee; the committee's permission rows and tasks, and the assignments and
  comments of those tasks, go with it (\<^verbatim>\<open>ON DELETE CASCADE\<close>).
\<close>

definition committee_delete :: "database \<Rightarrow> ident \<Rightarrow> database option" where
  "committee_delete db cid =
     (if committee_findUnique db cid = None then None
      else
        (let removed = map task_id (filter (\<lambda>t. task_committeeId t = cid) (tasks db))
         in Some (db\<lparr>committees := filter (\<lambda>c. committee_id c \<noteq> cid) (committees db),
                      permissions := filter (\<lambda>p. rcp_committeeId p \<noteq> cid) (permissions db),
                      tasks := filter (\<lambda>t. task_committeeId t \<noteq> cid) (tasks db),
                      assignments := filter (\<lambda>a. ta_taskId a \<notin> set removed) (assignments db),
                      comments := filter (\<lambda>c. comment_taskId c \<notin> set removed) (comments db)\<rparr>)))"

section \<open>The task routes (\<^verbatim>\<open>routes/tasks.ts\<close>)\<close>

text \<open>
  Every handler takes the store, the user id that \<^verbatim>\<open>authenticate\<close> put on the
  request, the route parameters and the body, and returns the response with the store
  it leaves (handlers that only read return the response).
\<close>

text \<open>
  \<^verbatim>\<open>userRoles.some((ur) => ur.role.permissions.some((p) => ...))\<close>, for a test on the
  row's level.
\<close>

definition userRoles_some ::
  "(PermissionLevel \<Rightarrow> bool) \<Rightarrow> roleCommitteePermission list list \<Rightarrow> bool" where
  "userRoles_some test userRoles' =
     list_ex (\<lambda>rolePermissions. list_ex (\<lambda>p. test (permissionLevel p)) rolePermissions)
       userRoles'"

text \<open>
  The order of \<^verbatim>\<open>orderBy: { status: 'asc' }\<close>: the column is TEXT, so the order is
  that of the strings.
\<close>

fun status_rank :: "TaskStatus \<Rightarrow> nat" where
  "status_rank DONE = 0"
| "status_rank IN_PROGRESS = 1"
| "status_rank TODO = 2"

text \<open>
  \<^verbatim>\<open>prisma.task.findMany({ where: { committeeId }, orderBy: [{ status: 'asc' },
  { position: 'asc' }] })\<close>; rows that agree on both keys keep their table order.
\<close>

definition task_findMany_committee :: "database \<Rightarrow> ident \<Rightarrow> task list" where
  "task_findMany_committee db committeeId =
     sort_key (\<lambda>t. status_rank (task_status t))
       (sort_key task_position (filter (\<lambda>t. task_committeeId t = committeeId) (tasks db)))"

text \<open>\<^verbatim>\<open>GET /tasks/committee/:committeeId\<close>\<close>

definition get_tasks_committee :: "database \<Rightarrow> ident \<Rightarrow> ident \<Rightarrow> http_error + task list" where
  "get_tasks_committee db userId committeeId =
     (case checkCommitteePermission (Level MEMBER) db
             \<lparr>req_userId = Some userId, params_committeeId = Some committeeId,
              body_committeeId = None\<rparr> of
        Inl e \<Rightarrow> Inl e
      | Inr _ \<Rightarrow> Inr (task_findMany_committee db committeeId))"

text \<open>\<^verbatim>\<open>GET /tasks/:id\<close>\<close>

definition get_task :: "database \<Rightarrow> ident \<Rightarrow> ident \<Rightarrow> http_error + task" where
  "get_task db userId tid =
     (case task_findUnique db tid of
        None \<Rightarrow> Inl (HttpError 404 ''Task not found'')
      | Some t \<Rightarrow>
          (case committee_findUnique db (task_committeeId t) of
             None \<Rightarrow> Inl internal_error
           | Some c \<Rightarrow>
               (let isAdmin = organization_findFirst_id_admin db (committee_organizationId c) userId
                in if isAdmin = None
                   then (let hasAccess = userRoles_some (\<lambda>l. l \<noteq> NONE)
                                            (userRole_findMany db userId (task_committeeId t))
                         in if \<not> hasAccess then Inl (HttpError 403 ''Access denied'')
                            else Inr t)
                   else Inr t)))"

text \<open>
  \<^verbatim>\<open>prisma.task.findFirst({ where: ..., orderBy: { position: 'desc' } })\<close>: a row of
  greatest position.
\<close>

fun last_by_position :: "task list \<Rightarrow> task option" where
  "last_by_position [] = None"
| "last_by_position (t # ts) =
     (case last_by_position ts of
        None \<Rightarrow> Some t
      | Some m \<Rightarrow> if task_position t < task_position m then Some m else Some t)"

text \<open>
  \<^verbatim>\<open>POST /tasks\<close>; the status of the new row is the column's default, TODO.  The
  insertion throws, and the handler answers 500, when the position computed is out of
  the column's range.
\<close>

definition post_tasks ::
  "database \<Rightarrow> ident \<Rightarrow> createTaskBody \<Rightarrow> ident \<Rightarrow> (http_error + task) \<times> database" where
  "post_tasks db userId body newId =
     (case checkCommitteePermission (Level LEADER) db
             \<lparr>req_userId = Some userId, params_committeeId = None,
              body_committeeId = ct_committeeId body\<rparr> of
        Inl e \<Rightarrow> (Inl e, db)
      | Inr _ \<Rightarrow>
          (case createTaskSchema_parse body of
             None \<Rightarrow> (Inl zod_error, db)
           | Some d \<Rightarrow>
               (let lastTask = last_by_position
                                 (filter (\<lambda>t. task_committeeId t = ctd_committeeId d
                                               \<and> task_status t = TODO)
                                    (tasks db));
                    position = (case lastTask of
                                  Some l \<Rightarrow> task_position l + 1
                                | None \<Rightarrow> 0);
                    t = \<lparr>task_id = newId, task_title = ctd_title d,
                         task_description = ctd_description d, task_status = TODO,
                         task_committeeId = ctd_committeeId d, task_createdById = userId,
                         task_dueDate = ctd_dueDate d, task_position = position\<rparr>
                in (case task_create db t
                           (case ctd_assigneeIds d of None \<Rightarrow> [] | Some ids \<Rightarrow> ids) of
                      None \<Rightarrow> (Inl internal_error, db)
                    | Some db' \<Rightarrow> (Inr t, db')))))"

text \<open>
  \<^verbatim>\<open>PUT /tasks/:id\<close>.  A field that the body leaves out is \<^verbatim>\<open>undefined\<close> in the
  update and keeps its value.  The update of the task and the replacement of the
  assignees are separate statements: when the first throws nothing is written, when
  the second throws the first stays.
\<close>

definition put_task ::
  "database \<Rightarrow> ident \<Rightarrow> ident \<Rightarrow> updateTaskBody \<Rightarrow> (http_error + task option) \<times> database" where
  "put_task db userId tid body =
     (case updateTaskSchema_parse body of
        None \<Rightarrow> (Inl zod_error, db)
      | Some d \<Rightarrow>
          (case task_findUnique db tid of
             None \<Rightarrow> (Inl (HttpError 404 ''Task not found''), db)
           | Some existingTask \<Rightarrow>
               (case committee_findUnique db (task_committeeId existingTask) of
                  None \<Rightarrow> (Inl internal_error, db)
                | Some c \<Rightarrow>
                    (let isAdmin = organization_findFirst_id_admin db
                                     (committee_organizationId c) userId;
                         isLeader = (if isAdmin \<noteq> None then True
                                     else userRoles_some (\<lambda>l. l = LEADER)
                                            (userRole_findMany db userId
                                               (task_committeeId existingTask)))
                     in if \<not> isLeader
                        then (Inl (HttpError 403
                                ''Insufficient permissions. Leader access required.''), db)
                        else
                          (case task_update db tid
                                  \<lparr>upd_title = utd_title d,
                                   upd_description = utd_description d,
                                   upd_status = utd_status d,
                                   upd_dueDate = utd_dueDate d,
                                   upd_position = utd_position d\<rparr> of
                             None \<Rightarrow> (Inl internal_error, db)
                           | Some db1 \<Rightarrow>
                               (case utd_assigneeIds d of
                                  None \<Rightarrow> (Inr (task_findUnique db1 tid), db1)
                                | Some assigneeIds \<Rightarrow>
                                    (let db2 = taskAssignment_deleteMany db1 tid
                                     in if length assigneeIds > 0
                                        then (case taskAssignment_createMany db2
                                                     (map (\<lambda>u. \<lparr>ta_taskId = tid, ta_userId = u\<rparr>)
                                                        assigneeIds) of
                                                None \<Rightarrow> (Inl internal_error, db2)
                                              | Some db3 \<Rightarrow> (Inr (task_findUnique db3 tid), db3))
                                        else (Inr (task_findUnique db2 tid), db2))))))))"

text \<open>
  \<^verbatim>\<open>PATCH /tasks/:id/status\<close>.  The update writes the status of the body and
  \<^verbatim>\<open>position ?? existingTask.position\<close>; when it throws the handler answers 500 and
  nothing is written.  The response is the updated row.
\<close>

definition patch_task_status ::
  "database \<Rightarrow> ident \<Rightarrow> ident \<Rightarrow> updateTaskStatusBody \<Rightarrow> (http_error + task) \<times> database" where
  "patch_task_status db userId tid body =
     (case updateTaskStatusSchema_parse body of
        None \<Rightarrow> (Inl zod_error, db)
      | Some (status, position) \<Rightarrow>
          (case task_findUnique db tid of
             None \<Rightarrow> (Inl (HttpError 404 ''Task not found''), db)
           | Some existingTask \<Rightarrow>
               (case committee_findUnique db (task_committeeId existingTask) of
                  None \<Rightarrow> (Inl internal_error, db)
                | Some c \<Rightarrow>
                    (let isAdmin = organization_findFirst_id_admin db
                                     (committee_organizationId c) userId;
                         hasAccess = (if isAdmin \<noteq> None then True
                                      else userRoles_some (\<lambda>l. l \<noteq> NONE)
                                             (userRole_findMany db userId
                                                (task_committeeId existingTask)))
                     in if \<not> hasAccess then (Inl (HttpError 403 ''Access denied''), db)
                        else
                          (let position' = (case position of
                                              Some n \<Rightarrow> n
                                            | None \<Rightarrow> Int_number (task_position existingTask));
                               data = \<lparr>upd_title = None, upd_description = None,
                                       upd_status = Some status, upd_dueDate = None,
                                       upd_position = Some position'\<rparr>
                           in (case task_update db tid data of
                                 None \<Rightarrow> (Inl internal_error, db)
                               | Some db' \<Rightarrow>
                                   (Inr (update_fields data (prisma_Int position') existingTask),
                                    db')))))))"

text \<open>\<^verbatim>\<open>DELETE /tasks/:id\<close>\<close>

definition delete_task :: "database \<Rightarrow> ident \<Rightarrow> ident \<Rightarrow> (http_error + string) \<times> database" where
  "delete_task db userId tid =
     (case task_findUnique db tid of
        None \<Rightarrow> (Inl (HttpError 404 ''Task not found''), db)
      | Some existingTask \<Rightarrow>
          (case committee_findUnique db (task_committeeId existingTask) of
             None \<Rightarrow> (Inl internal_error, db)
           | Some c \<Rightarrow>
               (let isAdmin = organization_findFirst_id_admin db
                                (committee_organizationId c) userId;
                    isLeader = (if isAdmin \<noteq> None then True
                                else userRoles_some (\<lambda>l. l = LEADER)
                                       (userRole_findMany db userId
                                          (task_committeeId existingTask)))
                in if \<not> isLeader
                   then (Inl (HttpError 403
                           ''Insufficient permissions. Leader access required.''), db)
                   else (Inr ''Task deleted successfully'', task_delete db tid))))"

text \<open>\<^verbatim>\<open>POST /tasks/:id/comments\<close>\<close>

definition post_task_comments ::
  "database \<Rightarrow> ident \<Rightarrow> ident \<Rightarrow> string option \<Rightarrow> ident \<Rightarrow> (http_error + comment) \<times> database" where
  "post_task_comments db userId tid body_content newId =
     (case commentSchema_parse body_content of
        None \<Rightarrow> (Inl zod_error, db)
      | Some content \<Rightarrow>
          (case task_findUnique db tid of
             None \<Rightarrow> (Inl (HttpError 404 ''Task not found''), db)
           | Some existingTask \<Rightarrow>
               (case committee_findUnique db (task_committeeId existingTask) of
                  None \<Rightarrow> (Inl internal_error, db)
                | Some c \<Rightarrow>
                    (let isAdmin = organization_findFirst_id_admin db
                                     (committee_organizationId c) userId;
                         hasAccess = (if isAdmin \<noteq> None then True
                                      else userRoles_some (\<lambda>l. l \<noteq> NONE)
                                             (userRole_findMany db userId
                                                (task_committeeId existingTask)))
                     in if \<not> hasAccess then (Inl (HttpError 403 ''Access denied''), db)
                        else
                          (let cm = \<lparr>comment_id = newId, comment_content = content,
                                     comment_taskId = tid, comment_userId = userId\<rparr>
                           in (case comment_create db cm of
                                 None \<Rightarrow> (Inl internal_error, db)
                               | Some db' \<Rightarrow> (Inr cm, db')))))))"

section \<open>The committee, organization and role routes\<close>

text \<open>
  \<^verbatim>\<open>GET /committees/:id\<close> (\<^verbatim>\<open>routes/committees.ts\<close>); its loop over the user's
  roles is the middleware's, statement for statement.
\<close>

definition get_committee ::
  "database \<Rightarrow> ident \<Rightarrow> ident \<Rightarrow> http_error + committee \<times> PermissionLevel" where
  "get_committee db userId cid =
     (case committee_findUnique db cid of
        None \<Rightarrow> Inl (HttpError 404 ''Committee not found'')
      | Some c \<Rightarrow>
          (let isAdmin = organization_findFirst_id_admin db (committee_organizationId c) userId;
               userPermission = (if isAdmin \<noteq> None then LEADER
                                 else scan_userRoles NONE (userRole_findMany db userId cid))
           in if userPermission = NONE then Inl (HttpError 403 ''Access denied'')
              else Inr (c, userPermission)))"

text \<open>\<^verbatim>\<open>DELETE /committees/:id\<close>, behind \<^verbatim>\<open>checkIsAdmin\<close>\<close>

definition delete_committee ::
  "database \<Rightarrow> ident \<Rightarrow> ident \<Rightarrow> (http_error + string) \<times> database" where
  "delete_committee db userId cid =
     (case checkIsAdmin db (Some userId) of
        Inl e \<Rightarrow> (Inl e, db)
      | Inr _ \<Rightarrow>
          (case committee_delete db cid of
             None \<Rightarrow> (Inl internal_error, db)
           | Some db' \<Rightarrow> (Inr ''Committee deleted successfully'', db')))"

text \<open>\<^verbatim>\<open>POST /organizations\<close> (the organization routes)\<close>

definition post_organizations ::
  "database \<Rightarrow> ident \<Rightarrow> createOrganizationBody \<Rightarrow> ident \<Rightarrow>
   (http_error + organization) \<times> database" where
  "post_organizations db userId body newId =
     (case createOrganizationSchema_parse body of
        None \<Rightarrow> (Inl zod_error, db)
      | Some d \<Rightarrow>
          (let existingOrg = organization_findFirst_admin db userId
           in if existingOrg \<noteq> None
              then (Inl (HttpError 400 ''Organization already exists for this user''), db)
              else
                (let org = \<lparr>org_id = newId, org_name = cod_name d,
                            org_description = cod_description d,
                            org_logoUrl = cod_logoUrl d, adminUserId = userId\<rparr>
                 in (case organization_create db org of
                       None \<Rightarrow> (Inl internal_error, db)
                     | Some db' \<Rightarrow> (Inr org, db')))))"

text \<open>
  \<^verbatim>\<open>POST /roles/permissions\<close> (\<^verbatim>\<open>routes/roles.ts\<close>), behind \<^verbatim>\<open>checkIsAdmin\<close>.
  The deletion and the insertion are separate statements: when the insertion throws,
  the deletion stays.  The response is the role with its permission rows,
  \<^verbatim>\<open>null\<close> when there is no such role.
\<close>

definition post_roles_permissions ::
  "database \<Rightarrow> ident \<Rightarrow> setPermissionsBody \<Rightarrow>
   (http_error + (role \<times> roleCommitteePermission list) option) \<times> database" where
  "post_roles_permissions db userId body =
     (case checkIsAdmin db (Some userId) of
        Inl e \<Rightarrow> (Inl e, db)
      | Inr _ \<Rightarrow>
          (case setPermissionsSchema_parse body of
             None \<Rightarrow> (Inl zod_error, db)
           | Some (roleId, perms) \<Rightarrow>
               (let db1 = permission_deleteMany db roleId;
                    permissionsToCreate =
                      map (\<lambda>(committeeId, level).
                             \<lparr>rcp_roleId = roleId, rcp_committeeId = committeeId,
                              permissionLevel = level\<rparr>)
                          (filter (\<lambda>(committeeId, level). level \<noteq> NONE) perms);
                    updatedRole = (\<lambda>db'. map_option
                                     (\<lambda>r. (r, filter (\<lambda>p. rcp_roleId p = roleId) (permissions db')))
                                     (role_findUnique db' roleId))
                in if length permissionsToCreate > 0
                   then (case permission_createMany db1 permissionsToCreate of
                           None \<Rightarrow> (Inl internal_error, db1)
                         | Some db2 \<Rightarrow> (Inr (updatedRole db2), db2))
                   else (Inr (updatedRole db1), db1))))"

text \<open>
  The board's columns (\<^verbatim>\<open>getTasksByStatus\<close> of \<^verbatim>\<open>KanbanBoard.tsx\<close>): the tasks of
  a listing that have the status, by position.
\<close>

definition getTasksByStatus :: "task list \<Rightarrow> TaskStatus \<Rightarrow> task list" where
  "getTasksByStatus listing status =
     sort_key task_position (filter (\<lambda>t. task_status t = status) listing)"

section \<open>A concrete store\<close>

text \<open>
  The store that \<^verbatim>\<open>backend/prisma/seed.ts\<close> builds, with names for the generated
  ids, and beside it a second organization \<open>org-2\<close> with
  its own admin \<open>admin2\<close>, its committee \<open>openings\<close> and task \<open>task5\<close>, and a
  user \<open>wendy\<close> without roles.
\<close>

definition seed_db :: database where
  "seed_db =
     \<lparr>users = [''admin'', ''john'', ''jane'', ''bob'', ''admin2'', ''wendy''],
      organizations =
        [\<lparr>org_id = ''org-1'', org_name = ''Computer Science Student Association'',
          org_description = Some ''The official student organization for CS students'',
          org_logoUrl = None, adminUserId = ''admin''\<rparr>,
         \<lparr>org_id = ''org-2'', org_name = ''Chess Club'', org_description = None,
          org_logoUrl = None, adminUserId = ''admin2''\<rparr>],
      roles =
        [\<lparr>role_id = ''president'', role_name = ''President'', role_organizationId = ''org-1''\<rparr>,
         \<lparr>role_id = ''member'', role_name = ''General Member'', role_organizationId = ''org-1''\<rparr>,
         \<lparr>role_id = ''chair'', role_name = ''Committee Chair'', role_organizationId = ''org-1''\<rparr>],
      committees =
        [\<lparr>committee_id = ''events'', committee_name = ''Events'',
          committee_organizationId = ''org-1''\<rparr>,
         \<lparr>committee_id = ''marketing'', committee_name = ''Marketing'',
          committee_organizationId = ''org-1''\<rparr>,
         \<lparr>committee_id = ''finance'', committee_name = ''Finance'',
          committee_organizationId = ''org-1''\<rparr>,
         \<lparr>committee_id = ''openings'', committee_name = ''Openings'',
          committee_organizationId = ''org-2''\<rparr>],
      userRoles =
        [\<lparr>ur_userId = ''john'', ur_roleId = ''president''\<rparr>,
         \<lparr>ur_userId = ''jane'', ur_roleId = ''chair''\<rparr>,
         \<lparr>ur_userId = ''bob'', ur_roleId = ''member''\<rparr>],
      permissions =
        [\<lparr>rcp_roleId = ''president'', rcp_committeeId = ''events'', permissionLevel = LEADER\<rparr>,
         \<lparr>rcp_roleId = ''president'', rcp_committeeId = ''marketing'', permissionLevel = LEADER\<rparr>,
         \<lparr>rcp_roleId = ''president'', rcp_committeeId = ''finance'', permissionLevel = LEADER\<rparr>,
         \<lparr>rcp_roleId = ''chair'', rcp_committeeId = ''events'', permissionLevel = LEADER\<rparr>,
         \<lparr>rcp_roleId = ''chair'', rcp_committeeId = ''marketing'', permissionLevel = MEMBER\<rparr>,
         \<lparr>rcp_roleId = ''member'', rcp_committeeId = ''events'', permissionLevel = MEMBER\<rparr>,
         \<lparr>rcp_roleId = ''member'', rcp_committeeId = ''marketing'', permissionLevel = MEMBER\<rparr>],
      tasks =
        [\<lparr>task_id = ''task1'', task_title = ''Plan Spring Hackathon'',
          task_description = Some ''Organize venue, sponsors, and schedule for the annual spring hackathon'',
          task_status = TODO, task_committeeId = ''events'', task_createdById = ''john'',
          task_dueDate = Some 1741996800000, task_position = 0\<rparr>,
         \<lparr>task_id = ''task2'', task_title = ''Design promotional posters'',
          task_description = Some ''Create eye-catching posters for upcoming events'',
          task_status = IN_PROGRESS, task_committeeId = ''marketing'',
          task_createdById = ''john'', task_dueDate = Some 1740009600000, task_position = 0\<rparr>,
         \<lparr>task_id = ''task3'', task_title = ''Update social media profiles'',
          task_description = Some ''Refresh all social media bios and profile pictures'',
          task_status = DONE, task_committeeId = ''marketing'', task_createdById = ''jane'',
          task_dueDate = None, task_position = 0\<rparr>,
         \<lparr>task_id = ''task4'', task_title = ''Review semester budget'',
          task_description = Some ''Go through all expenses and plan for next semester'',
          task_status = TODO, task_committeeId = ''finance'', task_createdById = ''admin'',
          task_dueDate = Some 1743465600000, task_position = 0\<rparr>,
         \<lparr>task_id = ''task5'', task_title = ''Book the hall'', task_description = None,
          task_status = TODO, task_committeeId = ''openings'', task_createdById = ''admin2'',
          task_dueDate = None, task_position = 0\<rparr>],
      assignments =
        [\<lparr>ta_taskId = ''task1'', ta_userId = ''john''\<rparr>,
         \<lparr>ta_taskId = ''task1'', ta_userId = ''jane''\<rparr>,
         \<lparr>ta_taskId = ''task2'', ta_userId = ''bob''\<rparr>,
         \<lparr>ta_taskId = ''task3'', ta_userId = ''jane''\<rparr>],
      comments =
        [\<lparr>comment_id = ''comment1'',
          comment_content = ''I've reached out to potential sponsors. Waiting for responses.'',
          comment_taskId = ''task1'', comment_userId = ''jane''\<rparr>,
         \<lparr>comment_id = ''comment2'',
          comment_content = ''Great! Let me know if you need help with the venue.'',
          comment_taskId = ''task1'', comment_userId = ''john''\<rparr>]\<rparr>"

text \<open>The seed store after the member role's holder is also given the chair role.\<close>

definition two_roles_db :: database where
  "two_roles_db =
     seed_db\<lparr>userRoles := userRoles seed_db @ [\<lparr>ur_userId = ''bob'', ur_roleId = ''chair''\<rparr>]\<rparr>"

section \<open>The order of permission levels\<close>

fun level_rank :: "PermissionLevel \<Rightarrow> nat" where
  "level_rank NONE = 0"
| "level_rank MEMBER = 1"
| "level_rank LEADER = 2"

definition max_level :: "PermissionLevel \<Rightarrow> PermissionLevel \<Rightarrow> PermissionLevel" where
  "max_level a b = (if level_rank a < level_rank b then b else a)"

definition max_levels :: "PermissionLevel list \<Rightarrow> PermissionLevel" where
  "max_levels ls = foldr max_level ls NONE"

text \<open>
  The resolver as the specification words it: \<open>permission(R, C)\<close> is the level of the
  row of role \<open>R\<close> for committee \<open>C\<close>, NONE when there is no row, and the
  effective level of a user is the maximum over the roles held.
\<close>

definition role_permission :: "database \<Rightarrow> ident \<Rightarrow> ident \<Rightarrow> PermissionLevel" where
  "role_permission db roleId committeeId =
     (case find (\<lambda>p. rcp_roleId p = roleId \<and> rcp_committeeId p = committeeId) (permissions db) of
        None \<Rightarrow> NONE
      | Some p \<Rightarrow> permissionLevel p)"

definition roles_of :: "database \<Rightarrow> ident \<Rightarrow> ident list" where
  "roles_of db userId = map ur_roleId (filter (\<lambda>ur. ur_userId ur = userId) (userRoles db))"

definition spec_resolve :: "database \<Rightarrow> ident \<Rightarrow> ident \<Rightarrow> PermissionLevel" where
  "spec_resolve db userId committeeId =
     max_levels (map (\<lambda>r. role_permission db r committeeId) (roles_of db userId))"

text \<open>
  A user has at least MEMBER on a committee: the user is the admin of the organization
  that owns it, or the level the resolver computes from the user's roles is not NONE.
\<close>

definition at_least_member :: "database \<Rightarrow> ident \<Rightarrow> committee \<Rightarrow> bool" where
  "at_least_member db userId c \<longleftrightarrow>
     organization_findFirst_id_admin db (committee_organizationId c) userId \<noteq> None
     \<or> highestPermission db userId (committee_id c) \<noteq> NONE"

text \<open>The invariant of the data model: no user is the admin of two organizations.\<close>

definition one_organization_per_admin :: "database \<Rightarrow> bool" where
  "one_organization_per_admin db = distinct (map adminUserId (organizations db))"

text \<open>No stored permission row has the level NONE.\<close>

definition no_NONE_rows :: "roleCommitteePermission list \<Rightarrow> bool" where
  "no_NONE_rows ps = list_all (\<lambda>p. permissionLevel p \<noteq> NONE) ps"

text \<open>
  The parts of \<^verbatim>\<open>POST /roles/permissions\<close>, named for the proofs: the rows to insert
  (\<^verbatim>\<open>permissionsToCreate\<close>), the stored rows of a role, and the handler from the
  insertion on.
\<close>

definition permissionsToCreate ::
  "ident \<Rightarrow> (ident \<times> PermissionLevel) list \<Rightarrow> roleCommitteePermission list" where
  "permissionsToCreate roleId perms =
     map (\<lambda>(committeeId, level).
            \<lparr>rcp_roleId = roleId, rcp_committeeId = committeeId, permissionLevel = level\<rparr>)
         (filter (\<lambda>(committeeId, level). level \<noteq> NONE) perms)"

definition role_rows :: "database \<Rightarrow> ident \<Rightarrow> roleCommitteePermission list" where
  "role_rows db roleId = filter (\<lambda>p. rcp_roleId p = roleId) (permissions db)"

definition create_and_fetch ::
  "database \<Rightarrow> ident \<Rightarrow> roleCommitteePermission list \<Rightarrow>
   (http_error + (role \<times> roleCommitteePermission list) option) \<times> database" where
  "create_and_fetch db1 roleId rows =
     (if length rows > 0
      then (case permission_createMany db1 rows of
              None \<Rightarrow> (Inl internal_error, db1)
            | Some db2 \<Rightarrow>
                (Inr (map_option (\<lambda>r. (r, role_rows db2 roleId)) (role_findUnique db2 roleId)), db2))
      else (Inr (map_option (\<lambda>r. (r, role_rows db1 roleId)) (role_findUnique db1 roleId)), db1))"

text \<open>A request that sets the permissions of the member role.\<close>

definition member_request :: setPermissionsBody where
  "member_request =
     \<lparr>sp_roleId = Some ''member'',
      sp_permissions =
        Some [\<lparr>pe_committeeId = Some ''events'', pe_permissionLevel = Some ''LEADER''\<rparr>,
              \<lparr>pe_committeeId = Some ''marketing'', pe_permissionLevel = Some ''NONE''\<rparr>,
              \<lparr>pe_committeeId = Some ''finance'', pe_permissionLevel = Some ''MEMBER''\<rparr>]\<rparr>"

text \<open>
  The store with the task rows of an id rewritten, to state what an update of a task
  leaves.
\<close>

definition replace_task :: "database \<Rightarrow> ident \<Rightarrow> (task \<Rightarrow> task) \<Rightarrow> database" where
  "replace_task db tid f =
     db\<lparr>tasks := map (\<lambda>t. if task_id t = tid then f t else t) (tasks db)\<rparr>"

text \<open>
  The seed store with three more tasks: one more in the TODO column of the events
  committee, one in its DONE column and one in the TODO column of another committee,
  both at greater positions.
\<close>

definition board_db :: database where
  "board_db =
     seed_db\<lparr>tasks := tasks seed_db @
       [\<lparr>task_id = ''task7'', task_title = ''Invite the speakers'', task_description = None,
         task_status = TODO, task_committeeId = ''events'', task_createdById = ''jane'',
         task_dueDate = None, task_position = 3\<rparr>,
        \<lparr>task_id = ''task8'', task_title = ''Pick the date'', task_description = None,
         task_status = DONE, task_committeeId = ''events'', task_createdById = ''jane'',
         task_dueDate = None, task_position = 7\<rparr>,
        \<lparr>task_id = ''task9'', task_title = ''Print the flyers'', task_description = None,
         task_status = TODO, task_committeeId = ''marketing'', task_createdById = ''john'',
         task_dueDate = None, task_position = 9\<rparr>]\<rparr>"

text \<open>A request that creates a task of the events committee.\<close>

definition venue_request :: createTaskBody where
  "venue_request =
     \<lparr>ct_title = Some ''Book the venue'', ct_description = None,
      ct_committeeId = Some ''events'', ct_dueDate = Some (Wellformed 1740787200000),
      ct_assigneeIds = Some [''bob'']\<rparr>"

section \<open>Properties of the resolver\<close>

lemma max_level_simps [simp]:
  "max_level NONE b = b" "max_level a NONE = a"
  "max_level LEADER b = LEADER" "max_level a LEADER = LEADER"
  "max_level MEMBER MEMBER = MEMBER"
  by (cases a; cases b; simp add: max_level_def)+

lemma max_level_assoc: "max_level (max_level a b) c = max_level a (max_level b c)"
  by (cases a; cases b; cases c; simp)

lemma max_level_left_idem [simp]: "max_level a (max_level a b) = max_level a b"
  by (cases a; cases b; simp)

lemma max_levels_Nil [simp]: "max_levels [] = NONE"
  by (simp add: max_levels_def)

lemma max_levels_Cons [simp]: "max_levels (l # ls) = max_level l (max_levels ls)"
  by (simp add: max_levels_def)

lemma scan_permissions_max:
  "scan_permissions hp ps = max_level hp (max_levels (map permissionLevel ps))"
proof (induction ps arbitrary: hp)
  case Nil
  show ?case by simp
next
  case (Cons p ps)
  show ?case
    by (cases "permissionLevel p"; cases hp; simp add: Cons.IH)
qed

lemma scan_userRoles_max:
  "scan_userRoles hp pss =
     max_level hp (max_levels (map (\<lambda>ps. max_levels (map permissionLevel ps)) pss))"
proof (induction pss arbitrary: hp)
  case Nil
  show ?case by simp
next
  case (Cons ps pss)
  show ?case
  proof (cases "scan_permissions hp ps = LEADER")
    case True
    then show ?thesis
      by (simp add: scan_permissions_max max_level_assoc [symmetric])
  next
    case False
    then show ?thesis
      by (simp add: Cons.IH) (simp add: scan_permissions_max max_level_assoc)
  qed
qed

lemma filter_unique_key:
  "distinct (map key xs) \<Longrightarrow>
   filter (\<lambda>x. key x = k) xs = (case find (\<lambda>x. key x = k) xs of None \<Rightarrow> [] | Some x \<Rightarrow> [x])"
proof (induction xs)
  case Nil
  show ?case by simp
next
  case (Cons x xs)
  show ?case
  proof (cases "key x = k")
    case True
    with Cons.prems have "k \<notin> key ` set xs" by simp
    then have "\<forall>y \<in> set xs. key y \<noteq> k" by blast
    then have "filter (\<lambda>y. key y = k) xs = []" by (simp add: filter_empty_conv)
    with True show ?thesis by simp
  next
    case False
    with Cons show ?thesis by simp
  qed
qed

lemma role_rows_unique:
  assumes "unique_permission_rows (permissions db)"
  shows "max_levels (map permissionLevel
           (filter (\<lambda>p. rcp_roleId p = r \<and> rcp_committeeId p = c) (permissions db)))
         = role_permission db r c"
proof -
  have eq: "(\<lambda>p. rcp_roleId p = r \<and> rcp_committeeId p = c) = (\<lambda>p. permission_key p = (r, c))"
    by (simp add: permission_key_def fun_eq_iff)
  from assms have "distinct (map permission_key (permissions db))"
    by (simp add: unique_permission_rows_def)
  from filter_unique_key [OF this, of "(r, c)"] show ?thesis
    unfolding role_permission_def eq by (simp split: option.splits)
qed

lemma highestPermission_spec_resolve:
  assumes "unique_permission_rows (permissions db)"
  shows "highestPermission db u c = spec_resolve db u c"
  by (simp add: highestPermission_def spec_resolve_def roles_of_def userRole_findMany_def
      scan_userRoles_max comp_def role_rows_unique [OF assms])

lemma max_levels_LEADER: "LEADER \<in> set ls \<Longrightarrow> max_levels ls = LEADER"
  by (induction ls) auto

lemma max_levels_NONE_iff: "max_levels ls = NONE \<longleftrightarrow> (\<forall>l \<in> set ls. l = NONE)"
proof (induction ls)
  case Nil
  show ?case by simp
next
  case (Cons l ls)
  show ?case
    by (cases l; cases "max_levels ls"; simp add: Cons.IH [symmetric])
qed

lemma max_levels_LEADER_iff: "max_levels ls = LEADER \<longleftrightarrow> LEADER \<in> set ls"
proof (induction ls)
  case Nil
  show ?case by simp
next
  case (Cons l ls)
  show ?case
    by (cases l; cases "max_levels ls"; use Cons.IH in auto)
qed

lemma max_level_eq_LEADER: "max_level a b = LEADER \<longleftrightarrow> a = LEADER \<or> b = LEADER"
  by (cases a; cases b; simp)

lemma max_levels_map_LEADER:
  "max_levels (map f xs) = LEADER \<longleftrightarrow> (\<exists>x \<in> set xs. f x = LEADER)"
  by (induction xs) (simp_all add: max_level_eq_LEADER)

text \<open>
  The tests of the handlers of \<^verbatim>\<open>routes/tasks.ts\<close> agree with the level that the
  middleware computes.
\<close>

lemma userRoles_some_member:
  "userRoles_some (\<lambda>l. l \<noteq> NONE) urs \<longleftrightarrow> scan_userRoles NONE urs \<noteq> NONE"
  by (auto simp add: scan_userRoles_max max_levels_NONE_iff userRoles_some_def list_ex_iff)

lemma userRoles_some_leader:
  "userRoles_some (\<lambda>l. l = LEADER) urs \<longleftrightarrow> scan_userRoles NONE urs = LEADER"
  by (simp add: scan_userRoles_max max_levels_map_LEADER userRoles_some_def list_ex_iff)

lemma hasAccess_iff:
  "userRoles_some (\<lambda>l. l \<noteq> NONE) (userRole_findMany db u c) \<longleftrightarrow>
   highestPermission db u c \<noteq> NONE"
  by (simp add: userRoles_some_member highestPermission_def)

lemma isLeader_iff:
  "userRoles_some (\<lambda>l. l = LEADER) (userRole_findMany db u c) \<longleftrightarrow>
   highestPermission db u c = LEADER"
  by (simp add: userRoles_some_leader highestPermission_def)

lemma find_conj_None: "find P xs = None \<Longrightarrow> find (\<lambda>x. Q x \<and> P x) xs = None"
  by (simp add: find_None_iff)

lemma not_admin_of_any:
  "organization_findFirst_admin db u = None \<Longrightarrow>
   organization_findFirst_id_admin db oid u = None"
  unfolding organization_findFirst_admin_def organization_findFirst_id_admin_def
  by (rule find_conj_None)

lemma no_roles_findMany: "roles_of db u = [] \<Longrightarrow> userRole_findMany db u c = []"
  by (simp add: roles_of_def userRole_findMany_def)

lemma no_roles_highestPermission: "roles_of db u = [] \<Longrightarrow> highestPermission db u c = NONE"
  by (simp add: highestPermission_def no_roles_findMany)

text \<open>
  For a requirement of MEMBER or LEADER the middleware's answer does not depend on the
  \<^verbatim>\<open>organizations\<close> table.
\<close>

lemma middleware_ignores_organizations:
  "requiredLevel \<noteq> ADMIN \<Longrightarrow>
   checkCommitteePermission requiredLevel (db\<lparr>organizations := orgs\<rparr>) req =
   checkCommitteePermission requiredLevel db req"
  by (simp add: checkCommitteePermission_def highestPermission_def userRole_findMany_def
      split: option.splits)

text \<open>
  For a requirement of \<^verbatim>\<open>'ADMIN'\<close>, which no route passes, a user who administers
  no organization falls through both tests and is let through with the level of the
  roles.
\<close>

lemma middleware_ADMIN_falls_through:
  "organization_findFirst_admin db u = None \<Longrightarrow> u \<noteq> [] \<Longrightarrow> c \<noteq> [] \<Longrightarrow>
   checkCommitteePermission ADMIN db
     \<lparr>req_userId = Some u, params_committeeId = Some c, body_committeeId = b\<rparr> =
   Inr \<lparr>req_isAdmin = False, req_userPermission = Some (highestPermission db u c)\<rparr>"
  by (simp add: checkCommitteePermission_def or_else_def truthy_def)

section \<open>What the handlers answer\<close>

lemma find_Some_key: "find (\<lambda>x. key x = k) xs = Some y \<Longrightarrow> key y = k"
  by (auto simp add: find_Some_iff)

lemma committee_findUnique_id: "committee_findUnique db cid = Some c \<Longrightarrow> committee_id c = cid"
  unfolding committee_findUnique_def by (rule find_Some_key)

lemma task_findUnique_id: "task_findUnique db tid = Some t \<Longrightarrow> task_id t = tid"
  unfolding task_findUnique_def by (rule find_Some_key)

lemma patch_task_status_eval:
  assumes "updateTaskStatusSchema_parse body = Some (st, pos)"
    and "task_findUnique db tid = Some t"
    and "committee_findUnique db (task_committeeId t) = Some cm"
  shows "patch_task_status db u tid body =
    (if \<not> at_least_member db u cm then (Inl (HttpError 403 ''Access denied''), db)
     else
       (case prisma_Int (case pos of Some n \<Rightarrow> n | None \<Rightarrow> Int_number (task_position t)) of
          None \<Rightarrow> (Inl internal_error, db)
        | Some p \<Rightarrow>
            (Inr (t\<lparr>task_status := st, task_position := p\<rparr>),
             replace_task db tid (\<lambda>x. x\<lparr>task_status := st, task_position := p\<rparr>))))"
  using assms committee_findUnique_id [OF assms(3)]
  by (simp add: patch_task_status_def at_least_member_def hasAccess_iff Let_def
      task_update_def update_fields_def replace_task_def split: option.splits)

lemma post_task_comments_eval:
  assumes "commentSchema_parse content = Some txt"
    and "task_findUnique db tid = Some t"
    and "committee_findUnique db (task_committeeId t) = Some cm"
  shows "post_task_comments db u tid content nid =
    (if at_least_member db u cm
     then (case comment_create db \<lparr>comment_id = nid, comment_content = txt,
                                   comment_taskId = tid, comment_userId = u\<rparr> of
             None \<Rightarrow> (Inl internal_error, db)
           | Some db' \<Rightarrow> (Inr \<lparr>comment_id = nid, comment_content = txt,
                                comment_taskId = tid, comment_userId = u\<rparr>, db'))
     else (Inl (HttpError 403 ''Access denied''), db))"
  using assms committee_findUnique_id [OF assms(3)]
  by (simp add: post_task_comments_def at_least_member_def hasAccess_iff Let_def)

lemma get_task_eval:
  assumes "task_findUnique db tid = Some t"
    and "committee_findUnique db (task_committeeId t) = Some cm"
  shows "get_task db u tid =
    (if at_least_member db u cm then Inr t else Inl (HttpError 403 ''Access denied''))"
  using assms committee_findUnique_id [OF assms(2)]
  by (simp add: get_task_def at_least_member_def hasAccess_iff Let_def)

lemma put_task_denied:
  assumes "updateTaskSchema_parse body = Some d"
    and "task_findUnique db tid = Some t"
    and "committee_findUnique db (task_committeeId t) = Some cm"
    and "organization_findFirst_id_admin db (committee_organizationId cm) u = None"
    and "highestPermission db u (task_committeeId t) \<noteq> LEADER"
  shows "put_task db u tid body =
    (Inl (HttpError 403 ''Insufficient permissions. Leader access required.''), db)"
  using assms by (simp add: put_task_def isLeader_iff Let_def)

lemma delete_task_denied:
  assumes "task_findUnique db tid = Some t"
    and "committee_findUnique db (task_committeeId t) = Some cm"
    and "organization_findFirst_id_admin db (committee_organizationId cm) u = None"
    and "highestPermission db u (task_committeeId t) \<noteq> LEADER"
  shows "delete_task db u tid =
    (Inl (HttpError 403 ''Insufficient permissions. Leader access required.''), db)"
  using assms by (simp add: delete_task_def isLeader_iff Let_def)

lemma middleware_eval:
  assumes "u \<noteq> []" and "c \<noteq> []" and "or_else pc bc = Some c"
  shows "checkCommitteePermission (Level MEMBER) db
           \<lparr>req_userId = Some u, params_committeeId = pc, body_committeeId = bc\<rparr> =
         (if highestPermission db u c = NONE
          then Inl (HttpError 403 ''Insufficient permissions. Member access required.'')
          else Inr \<lparr>req_isAdmin = False, req_userPermission = Some (highestPermission db u c)\<rparr>)"
    and "checkCommitteePermission (Level LEADER) db
           \<lparr>req_userId = Some u, params_committeeId = pc, body_committeeId = bc\<rparr> =
         (if highestPermission db u c \<noteq> LEADER
          then Inl (HttpError 403 ''Insufficient permissions. Leader access required.'')
          else Inr \<lparr>req_isAdmin = False, req_userPermission = Some LEADER\<rparr>)"
  using assms
  by (cases "highestPermission db u c"; simp add: checkCommitteePermission_def Let_def)+

lemma or_else_params: "c \<noteq> [] \<Longrightarrow> or_else (Some c) b = Some c"
  by (simp add: or_else_def truthy_def)

lemma or_else_body: "or_else None b = b"
  by (simp add: or_else_def truthy_def)

lemma get_tasks_committee_eval:
  assumes "u \<noteq> []" and "c \<noteq> []"
  shows "get_tasks_committee db u c =
    (if highestPermission db u c = NONE
     then Inl (HttpError 403 ''Insufficient permissions. Member access required.'')
     else Inr (task_findMany_committee db c))"
  by (simp add: get_tasks_committee_def middleware_eval(1) [OF assms or_else_params [OF assms(2)]])

lemma post_tasks_denied:
  assumes "u \<noteq> []" and "c \<noteq> []" and "ct_committeeId body = Some c"
    and "highestPermission db u c \<noteq> LEADER"
  shows "post_tasks db u body nid =
    (Inl (HttpError 403 ''Insufficient permissions. Leader access required.''), db)"
proof -
  have "or_else None (ct_committeeId body) = Some c"
    using assms(3) by (simp add: or_else_body)
  from middleware_eval(2) [OF assms(1,2) this] assms(4) show ?thesis
    by (simp add: post_tasks_def)
qed

section \<open>Updates of a task\<close>

lemma parse_TaskStatus_string [simp]: "parse_TaskStatus (TaskStatus_string s) = Some s"
  by (cases s) (simp_all add: parse_TaskStatus_def)

lemma prisma_Int_Some: "prisma_Int n = Some p \<longleftrightarrow> n = Int_number p \<and> int32 p"
  by (cases n) (auto simp add: prisma_Int_def)

lemma find_map_update:
  assumes "\<And>x. key (f x) = key x"
  shows "find (\<lambda>x. key x = k) (map (\<lambda>x. if key x = k then f x else x) xs) =
         map_option f (find (\<lambda>x. key x = k) xs)"
  by (induction xs) (simp_all add: assms)

lemma task_findUnique_replace:
  assumes "\<And>x. task_id (f x) = task_id x"
  shows "task_findUnique (replace_task db tid f) tid = map_option f (task_findUnique db tid)"
  unfolding task_findUnique_def replace_task_def
  using find_map_update [of task_id f tid "tasks db", OF assms] by simp

lemma replace_task_others:
  "filter (\<lambda>x. task_id x \<noteq> tid) (tasks (replace_task db tid f)) =
   filter (\<lambda>x. task_id x \<noteq> tid) (tasks db)"
  if "\<And>x. task_id (f x) = task_id x"
proof -
  have "filter (\<lambda>x. task_id x \<noteq> tid) (map (\<lambda>x. if task_id x = tid then f x else x) xs) =
      filter (\<lambda>x. task_id x \<noteq> tid) xs" for xs
    by (induction xs) (simp_all add: that)
  then show ?thesis by (simp add: replace_task_def)
qed

section \<open>C1: the organization admin and the middleware\<close>

text \<open>
  C1.  The claim is that the admin of the organization owning a committee passes every
  check of MEMBER or LEADER on it.  In the seed store the user \<open>admin\<close> is the admin of
  \<open>org-1\<close>, which owns the committee \<open>finance\<close>, and holds no role.  The handlers that
  check inline do treat the admin as LEADER: \<^verbatim>\<open>GET /committees/:id\<close> answers with
  \<^verbatim>\<open>userPermission\<close> LEADER and \<^verbatim>\<open>PATCH /tasks/:id/status\<close> moves a task of the
  committee.  The middleware does not: \<^verbatim>\<open>GET /tasks/committee/:committeeId\<close> and
  \<^verbatim>\<open>POST /tasks\<close> answer 403 to the same user on the same committee, and nothing is
  created.
\<close>

theorem admin_refused_by_middleware:
  "organization_findFirst_id_admin seed_db ''org-1'' ''admin'' \<noteq> None
   \<and> committee_findUnique seed_db ''finance'' =
       Some \<lparr>committee_id = ''finance'', committee_name = ''Finance'',
             committee_organizationId = ''org-1''\<rparr>
   \<and> get_tasks_committee seed_db ''admin'' ''finance'' =
       Inl (HttpError 403 ''Insufficient permissions. Member access required.'')
   \<and> post_tasks seed_db ''admin''
        \<lparr>ct_title = Some ''Audit the books'', ct_description = None,
         ct_committeeId = Some ''finance'', ct_dueDate = None, ct_assigneeIds = None\<rparr>
        ''task6'' =
       (Inl (HttpError 403 ''Insufficient permissions. Leader access required.''), seed_db)
   \<and> get_committee seed_db ''admin'' ''finance'' =
       Inr (\<lparr>committee_id = ''finance'', committee_name = ''Finance'',
             committee_organizationId = ''org-1''\<rparr>, LEADER)
   \<and> (\<exists>t. fst (patch_task_status seed_db ''admin'' ''task4''
              \<lparr>uts_status = Some ''DONE'', uts_position = None\<rparr>) = Inr t)"
  by (simp add: seed_db_def organization_findFirst_id_admin_def committee_findUnique_def
      get_tasks_committee_def post_tasks_def checkCommitteePermission_def or_else_def truthy_def
      organization_findFirst_admin_def highestPermission_def userRole_findMany_def
      get_committee_def patch_task_status_def updateTaskStatusSchema_parse_def parse_TaskStatus_def
      task_findUnique_def task_update_def prisma_Int_def int32_def Let_def)

section \<open>C2: the resolver takes the maximum over the user's roles\<close>

text \<open>
  C2.  With at most one permission row per (role, committee), which the unique index of
  the schema enforces, the level that \<^verbatim>\<open>checkCommitteePermission\<close> computes for a
  user and a committee is the maximum, in the order NONE < MEMBER < LEADER, of the
  levels of the rows of the user's roles for that committee, a role without a row
  counting as NONE.  The right-hand side scans every role, so leaving the loops at
  the first LEADER does not change the result.  In particular a user with MEMBER by
  one role and LEADER by another on the same committee resolves to LEADER.  The loop
  of \<^verbatim>\<open>GET /committees/:id\<close> gives the same level to a user who is not the admin.
\<close>

theorem resolver_takes_maximum_over_roles:
  assumes "unique_permission_rows (permissions db)"
  shows "highestPermission db u c = spec_resolve db u c
    \<and> (r1 \<in> set (roles_of db u) \<and> r2 \<in> set (roles_of db u)
         \<and> role_permission db r1 c = MEMBER \<and> role_permission db r2 c = LEADER
       \<longrightarrow> highestPermission db u c = LEADER)
    \<and> (committee_findUnique db c = Some cm
         \<and> organization_findFirst_id_admin db (committee_organizationId cm) u = None
       \<longrightarrow> get_committee db u c =
             (if spec_resolve db u c = NONE then Inl (HttpError 403 ''Access denied'')
              else Inr (cm, spec_resolve db u c)))"
proof (intro conjI impI)
  show eq: "highestPermission db u c = spec_resolve db u c"
    by (rule highestPermission_spec_resolve [OF assms])
  {
    assume "r1 \<in> set (roles_of db u) \<and> r2 \<in> set (roles_of db u)
      \<and> role_permission db r1 c = MEMBER \<and> role_permission db r2 c = LEADER"
    then have "LEADER \<in> set (map (\<lambda>r. role_permission db r c) (roles_of db u))"
      by force
    then show "highestPermission db u c = LEADER"
      unfolding eq spec_resolve_def by (rule max_levels_LEADER)
  }
  {
    assume "committee_findUnique db c = Some cm
      \<and> organization_findFirst_id_admin db (committee_organizationId cm) u = None"
    moreover have "scan_userRoles NONE (userRole_findMany db u c) = spec_resolve db u c"
      using eq by (simp add: highestPermission_def)
    ultimately show "get_committee db u c =
        (if spec_resolve db u c = NONE then Inl (HttpError 403 ''Access denied'')
         else Inr (cm, spec_resolve db u c))"
      by (simp add: get_committee_def)
  }
qed

theorem resolver_takes_maximum_over_roles_witness:
  "unique_permission_rows (permissions two_roles_db)
   \<and> ''member'' \<in> set (roles_of two_roles_db ''bob'')
   \<and> ''chair'' \<in> set (roles_of two_roles_db ''bob'')
   \<and> role_permission two_roles_db ''member'' ''events'' = MEMBER
   \<and> role_permission two_roles_db ''chair'' ''events'' = LEADER
   \<and> highestPermission two_roles_db ''bob'' ''events'' = spec_resolve two_roles_db ''bob'' ''events''
   \<and> highestPermission two_roles_db ''bob'' ''events'' = LEADER
   \<and> get_committee two_roles_db ''bob'' ''events'' =
       Inr (\<lparr>committee_id = ''events'', committee_name = ''Events'',
             committee_organizationId = ''org-1''\<rparr>, LEADER)"
proof -
  have u: "unique_permission_rows (permissions two_roles_db)"
    by (simp add: two_roles_db_def seed_db_def unique_permission_rows_def permission_key_def)
  have r: "''member'' \<in> set (roles_of two_roles_db ''bob'')"
    "''chair'' \<in> set (roles_of two_roles_db ''bob'')"
    by (simp_all add: two_roles_db_def seed_db_def roles_of_def)
  have p: "role_permission two_roles_db ''member'' ''events'' = MEMBER"
    "role_permission two_roles_db ''chair'' ''events'' = LEADER"
    by (simp_all add: two_roles_db_def seed_db_def role_permission_def)
  have c: "committee_findUnique two_roles_db ''events'' =
      Some \<lparr>committee_id = ''events'', committee_name = ''Events'',
            committee_organizationId = ''org-1''\<rparr>"
    by (simp add: two_roles_db_def seed_db_def committee_findUnique_def)
  have a: "organization_findFirst_id_admin two_roles_db ''org-1'' ''bob'' = None"
    by (simp add: two_roles_db_def seed_db_def organization_findFirst_id_admin_def)
  from resolver_takes_maximum_over_roles [OF u, of "''bob''" "''events''" "''member''" "''chair''"
      "\<lparr>committee_id = ''events'', committee_name = ''Events'',
        committee_organizationId = ''org-1''\<rparr>"]
  have th: "highestPermission two_roles_db ''bob'' ''events'' = spec_resolve two_roles_db ''bob'' ''events''"
    "highestPermission two_roles_db ''bob'' ''events'' = LEADER"
    "get_committee two_roles_db ''bob'' ''events'' =
       (if spec_resolve two_roles_db ''bob'' ''events'' = NONE
        then Inl (HttpError 403 ''Access denied'')
        else Inr (\<lparr>committee_id = ''events'', committee_name = ''Events'',
                   committee_organizationId = ''org-1''\<rparr>,
                  spec_resolve two_roles_db ''bob'' ''events''))"
    using r p c a by (blast, blast, simp)
  from th(1,2) have "spec_resolve two_roles_db ''bob'' ''events'' = LEADER" by simp
  with th u r p show ?thesis by simp
qed

section \<open>C3: the admin of another organization\<close>

text \<open>
  C3.  The claim is that the admin of one organization gets no admin access to a
  committee of another.  In the seed store the user \<open>admin\<close> is the admin of \<open>org-1\<close>
  and not of \<open>org-2\<close>, which owns the committee \<open>openings\<close> with the task \<open>task5\<close>.
  The inline check of \<^verbatim>\<open>GET /tasks/:id\<close> compares the admin of the owning
  organization and answers 403.  The middleware looks for any organization that the
  user administers: \<^verbatim>\<open>checkCommitteePermission('ADMIN')\<close> lets the request on
  \<open>openings\<close> pass as admin, and \<^verbatim>\<open>DELETE /committees/:id\<close>, behind
  \<^verbatim>\<open>checkIsAdmin\<close>, deletes the other organization's committee and its task.
\<close>

theorem foreign_admin_passes_middleware:
  "organization_findFirst_id_admin seed_db ''org-2'' ''admin'' = None
   \<and> committee_findUnique seed_db ''openings'' =
       Some \<lparr>committee_id = ''openings'', committee_name = ''Openings'',
             committee_organizationId = ''org-2''\<rparr>
   \<and> checkCommitteePermission ADMIN seed_db
        \<lparr>req_userId = Some ''admin'', params_committeeId = Some ''openings'',
         body_committeeId = None\<rparr> =
       Inr \<lparr>req_isAdmin = True, req_userPermission = None\<rparr>
   \<and> fst (delete_committee seed_db ''admin'' ''openings'') = Inr ''Committee deleted successfully''
   \<and> committee_findUnique (snd (delete_committee seed_db ''admin'' ''openings'')) ''openings'' = None
   \<and> task_findUnique (snd (delete_committee seed_db ''admin'' ''openings'')) ''task5'' = None
   \<and> get_task seed_db ''admin'' ''task5'' = Inl (HttpError 403 ''Access denied'')"
  by (simp add: seed_db_def organization_findFirst_id_admin_def committee_findUnique_def
      checkCommitteePermission_def or_else_def truthy_def
      organization_findFirst_admin_def delete_committee_def checkIsAdmin_def committee_delete_def
      task_findUnique_def get_task_def userRole_findMany_def userRoles_some_def)

section \<open>C4: a user without roles who is no admin\<close>

text \<open>
  C4.  For a user who holds no role and administers no organization, the resolver gives
  NONE on every committee, and every gated operation answers 403 and writes nothing:
  the two routes behind the middleware (for any committee id), \<^verbatim>\<open>GET /committees/:id\<close>
  on a committee that exists, and the five routes on a task that check inline, on a
  task that exists (in a committee that exists) and with a body that passes the
  route's schema, which is checked before the permission.  The routes behind
  \<^verbatim>\<open>checkIsAdmin\<close> answer 403 as well.
\<close>

theorem no_roles_not_admin_is_denied:
  assumes "roles_of db u = []" and "organization_findFirst_admin db u = None" and "u \<noteq> []"
  shows "highestPermission db u c = NONE
    \<and> (c \<noteq> [] \<longrightarrow>
         get_tasks_committee db u c =
           Inl (HttpError 403 ''Insufficient permissions. Member access required.''))
    \<and> (c \<noteq> [] \<and> ct_committeeId cb = Some c \<longrightarrow>
         post_tasks db u cb nid =
           (Inl (HttpError 403 ''Insufficient permissions. Leader access required.''), db))
    \<and> (committee_findUnique db c = Some cm \<longrightarrow>
         get_committee db u c = Inl (HttpError 403 ''Access denied''))
    \<and> (task_findUnique db tid = Some t \<and> committee_findUnique db (task_committeeId t) = Some tc \<longrightarrow>
         get_task db u tid = Inl (HttpError 403 ''Access denied'')
         \<and> (updateTaskSchema_parse ub \<noteq> None \<longrightarrow>
              put_task db u tid ub =
                (Inl (HttpError 403 ''Insufficient permissions. Leader access required.''), db))
         \<and> (updateTaskStatusSchema_parse sb \<noteq> None \<longrightarrow>
              patch_task_status db u tid sb = (Inl (HttpError 403 ''Access denied''), db))
         \<and> delete_task db u tid =
              (Inl (HttpError 403 ''Insufficient permissions. Leader access required.''), db)
         \<and> (commentSchema_parse content \<noteq> None \<longrightarrow>
              post_task_comments db u tid content cid = (Inl (HttpError 403 ''Access denied''), db)))
    \<and> checkIsAdmin db (Some u) = Inl (HttpError 403 ''Admin access required'')
    \<and> delete_committee db u c = (Inl (HttpError 403 ''Admin access required''), db)
    \<and> post_roles_permissions db u pb = (Inl (HttpError 403 ''Admin access required''), db)"
proof -
  have none: "highestPermission db u x = NONE" for x
    by (rule no_roles_highestPermission [OF assms(1)])
  have adm: "organization_findFirst_id_admin db oid u = None" for oid
    by (rule not_admin_of_any [OF assms(2)])
  have nm: "\<not> at_least_member db u x" for x
    by (simp add: at_least_member_def none adm)
  have 1: "c \<noteq> [] \<longrightarrow> get_tasks_committee db u c =
      Inl (HttpError 403 ''Insufficient permissions. Member access required.'')"
    by (simp add: get_tasks_committee_eval [OF assms(3)] none)
  have 2: "c \<noteq> [] \<and> ct_committeeId cb = Some c \<longrightarrow> post_tasks db u cb nid =
      (Inl (HttpError 403 ''Insufficient permissions. Leader access required.''), db)"
    using post_tasks_denied [OF assms(3), of c cb db nid] by (simp add: none)
  have 3: "committee_findUnique db c = Some cm \<longrightarrow>
      get_committee db u c = Inl (HttpError 403 ''Access denied'')"
    using none [of c] by (simp add: get_committee_def adm highestPermission_def)
  have 4: "get_task db u tid = Inl (HttpError 403 ''Access denied'')"
    if "task_findUnique db tid = Some t" "committee_findUnique db (task_committeeId t) = Some tc"
    by (simp add: get_task_eval [OF that] nm)
  have 5: "put_task db u tid ub =
      (Inl (HttpError 403 ''Insufficient permissions. Leader access required.''), db)"
    if "task_findUnique db tid = Some t" "committee_findUnique db (task_committeeId t) = Some tc"
      "updateTaskSchema_parse ub \<noteq> None"
  proof -
    from that(3) obtain d where "updateTaskSchema_parse ub = Some d" by auto
    from put_task_denied [OF this that(1,2) adm] show ?thesis by (simp add: none)
  qed
  have 6: "patch_task_status db u tid sb = (Inl (HttpError 403 ''Access denied''), db)"
    if "task_findUnique db tid = Some t" "committee_findUnique db (task_committeeId t) = Some tc"
      "updateTaskStatusSchema_parse sb \<noteq> None"
  proof -
    from that(3) obtain st pos where "updateTaskStatusSchema_parse sb = Some (st, pos)" by auto
    from patch_task_status_eval [OF this that(1,2)] show ?thesis by (simp add: nm)
  qed
  have 7: "delete_task db u tid =
      (Inl (HttpError 403 ''Insufficient permissions. Leader access required.''), db)"
    if "task_findUnique db tid = Some t" "committee_findUnique db (task_committeeId t) = Some tc"
    using delete_task_denied [OF that adm] by (simp add: none)
  have 8: "post_task_comments db u tid content cid = (Inl (HttpError 403 ''Access denied''), db)"
    if "task_findUnique db tid = Some t" "committee_findUnique db (task_committeeId t) = Some tc"
      "commentSchema_parse content \<noteq> None"
  proof -
    from that(3) obtain str where "commentSchema_parse content = Some str" by auto
    from post_task_comments_eval [OF this that(1,2)] show ?thesis by (simp add: nm)
  qed
  have 9: "checkIsAdmin db (Some u) = Inl (HttpError 403 ''Admin access required'')"
    using assms(2,3) by (simp add: checkIsAdmin_def)
  have 10: "delete_committee db u c = (Inl (HttpError 403 ''Admin access required''), db)"
    by (simp add: delete_committee_def 9)
  have 11: "post_roles_permissions db u pb = (Inl (HttpError 403 ''Admin access required''), db)"
    by (simp add: post_roles_permissions_def 9)
  from none [of c] 1 2 3 4 5 6 7 8 9 10 11 show ?thesis by blast
qed

theorem no_roles_not_admin_is_denied_witness:
  "roles_of seed_db ''wendy'' = []
   \<and> organization_findFirst_admin seed_db ''wendy'' = None
   \<and> highestPermission seed_db ''wendy'' ''events'' = NONE
   \<and> get_tasks_committee seed_db ''wendy'' ''events'' =
       Inl (HttpError 403 ''Insufficient permissions. Member access required.'')
   \<and> post_tasks seed_db ''wendy''
        \<lparr>ct_title = Some ''Order pizza'', ct_description = None,
         ct_committeeId = Some ''events'', ct_dueDate = None, ct_assigneeIds = None\<rparr> ''task6'' =
       (Inl (HttpError 403 ''Insufficient permissions. Leader access required.''), seed_db)
   \<and> get_committee seed_db ''wendy'' ''events'' = Inl (HttpError 403 ''Access denied'')
   \<and> get_task seed_db ''wendy'' ''task1'' = Inl (HttpError 403 ''Access denied'')
   \<and> put_task seed_db ''wendy'' ''task1''
        \<lparr>ut_title = Some ''Mine now'', ut_description = None, ut_status = None,
         ut_dueDate = None, ut_position = None, ut_assigneeIds = None\<rparr> =
       (Inl (HttpError 403 ''Insufficient permissions. Leader access required.''), seed_db)
   \<and> patch_task_status seed_db ''wendy'' ''task1''
        \<lparr>uts_status = Some ''DONE'', uts_position = None\<rparr> =
       (Inl (HttpError 403 ''Access denied''), seed_db)
   \<and> delete_task seed_db ''wendy'' ''task1'' =
       (Inl (HttpError 403 ''Insufficient permissions. Leader access required.''), seed_db)
   \<and> post_task_comments seed_db ''wendy'' ''task1'' (Some ''First!'') ''comment3'' =
       (Inl (HttpError 403 ''Access denied''), seed_db)
   \<and> delete_committee seed_db ''wendy'' ''events'' =
       (Inl (HttpError 403 ''Admin access required''), seed_db)
   \<and> post_roles_permissions seed_db ''wendy'' member_request =
       (Inl (HttpError 403 ''Admin access required''), seed_db)"
proof -
  have h1: "roles_of seed_db ''wendy'' = []"
    by (simp add: roles_of_def seed_db_def)
  have h2: "organization_findFirst_admin seed_db ''wendy'' = None"
    by (simp add: organization_findFirst_admin_def seed_db_def)
  have h3: "''wendy'' \<noteq> []" by simp
  have c: "committee_findUnique seed_db ''events'' =
      Some \<lparr>committee_id = ''events'', committee_name = ''Events'',
            committee_organizationId = ''org-1''\<rparr>"
    by (simp add: committee_findUnique_def seed_db_def)
  have t: "task_findUnique seed_db ''task1'' =
      Some \<lparr>task_id = ''task1'', task_title = ''Plan Spring Hackathon'',
            task_description = Some ''Organize venue, sponsors, and schedule for the annual spring hackathon'',
            task_status = TODO, task_committeeId = ''events'', task_createdById = ''john'',
            task_dueDate = Some 1741996800000, task_position = 0\<rparr>"
    by (simp add: task_findUnique_def seed_db_def)
  have p1: "updateTaskSchema_parse
      \<lparr>ut_title = Some ''Mine now'', ut_description = None, ut_status = None,
       ut_dueDate = None, ut_position = None, ut_assigneeIds = None\<rparr> \<noteq> None"
    by (simp add: updateTaskSchema_parse_def optional_checked_def)
  have p2: "updateTaskStatusSchema_parse \<lparr>uts_status = Some ''DONE'', uts_position = None\<rparr> \<noteq> None"
    by (simp add: updateTaskStatusSchema_parse_def parse_TaskStatus_def)
  have p3: "commentSchema_parse (Some ''First!'') \<noteq> None"
    by (simp add: commentSchema_parse_def)
  from no_roles_not_admin_is_denied [OF h1 h2 h3,
      where c = "''events''"
        and cb = "\<lparr>ct_title = Some ''Order pizza'', ct_description = None,
                  ct_committeeId = Some ''events'', ct_dueDate = None, ct_assigneeIds = None\<rparr>"
        and nid = "''task6''"
        and cm = "\<lparr>committee_id = ''events'', committee_name = ''Events'',
                  committee_organizationId = ''org-1''\<rparr>"
        and tid = "''task1''"
        and t = "\<lparr>task_id = ''task1'', task_title = ''Plan Spring Hackathon'',
                 task_description = Some ''Organize venue, sponsors, and schedule for the annual spring hackathon'',
                 task_status = TODO, task_committeeId = ''events'', task_createdById = ''john'',
                 task_dueDate = Some 1741996800000, task_position = 0\<rparr>"
        and tc = "\<lparr>committee_id = ''events'', committee_name = ''Events'',
                  committee_organizationId = ''org-1''\<rparr>"
        and ub = "\<lparr>ut_title = Some ''Mine now'', ut_description = None, ut_status = None,
                  ut_dueDate = None, ut_position = None, ut_assigneeIds = None\<rparr>"
        and sb = "\<lparr>uts_status = Some ''DONE'', uts_position = None\<rparr>"
        and content = "Some ''First!''"
        and cid = "''comment3''"
        and pb = member_request]
  show ?thesis using h1 h2 c t p1 p2 p3 by simp
qed

section \<open>C5: setting the permissions of a role\<close>

lemma post_roles_permissions_eval:
  "post_roles_permissions db u body =
     (case checkIsAdmin db (Some u) of
        Inl e \<Rightarrow> (Inl e, db)
      | Inr _ \<Rightarrow>
          (case setPermissionsSchema_parse body of
             None \<Rightarrow> (Inl zod_error, db)
           | Some (r, perms) \<Rightarrow>
               create_and_fetch (permission_deleteMany db r) r (permissionsToCreate r perms)))"
  by (simp add: post_roles_permissions_def create_and_fetch_def permissionsToCreate_def
      role_rows_def Let_def split: sum.splits option.splits prod.splits)

lemma checkIsAdmin_organizations:
  "organizations db' = organizations db \<Longrightarrow> checkIsAdmin db' u = checkIsAdmin db u"
  by (simp add: checkIsAdmin_def organization_findFirst_admin_def split: option.splits)

lemma permissionsToCreate_roleId: "p \<in> set (permissionsToCreate r perms) \<Longrightarrow> rcp_roleId p = r"
  by (auto simp add: permissionsToCreate_def)

lemma permissionsToCreate_no_NONE: "no_NONE_rows (permissionsToCreate r perms)"
  by (auto simp add: permissionsToCreate_def no_NONE_rows_def list_all_iff)

lemma permission_deleteMany_idem:
  "permission_deleteMany (permission_deleteMany db r) r = permission_deleteMany db r"
  by (simp add: permission_deleteMany_def)

lemma permission_deleteMany_created:
  assumes "permission_createMany (permission_deleteMany db r) rows = Some db2"
    and "\<forall>p \<in> set rows. rcp_roleId p = r"
  shows "permission_deleteMany db2 r = permission_deleteMany db r"
proof -
  from assms(1) have db2: "db2 = (permission_deleteMany db r)
      \<lparr>permissions := permissions (permission_deleteMany db r) @ rows\<rparr>"
    by (auto simp add: permission_createMany_def split: if_splits)
  from assms(2) have "filter (\<lambda>p. rcp_roleId p \<noteq> r) rows = []"
    by (simp add: filter_empty_conv)
  then show ?thesis
    by (simp add: db2 permission_deleteMany_def)
qed

lemma create_and_fetch_organizations:
  "organizations (snd (create_and_fetch db1 r rows)) = organizations db1"
  by (auto simp add: create_and_fetch_def permission_createMany_def split: option.splits if_splits)

lemma create_and_fetch_twice:
  assumes "\<forall>p \<in> set rows. rcp_roleId p = r"
  shows "create_and_fetch
           (permission_deleteMany (snd (create_and_fetch (permission_deleteMany db r) r rows)) r)
           r rows =
         create_and_fetch (permission_deleteMany db r) r rows"
proof (cases "length rows > 0")
  case False
  then show ?thesis
    by (simp add: create_and_fetch_def permission_deleteMany_idem)
next
  case True
  show ?thesis
  proof (cases "permission_createMany (permission_deleteMany db r) rows")
    case None
    with True show ?thesis
      by (simp add: create_and_fetch_def permission_deleteMany_idem)
  next
    case (Some db2)
    from permission_deleteMany_created [OF Some assms] Some True show ?thesis
      by (simp add: create_and_fetch_def)
  qed
qed

lemma post_roles_permissions_twice:
  "post_roles_permissions (snd (post_roles_permissions db u body)) u body =
   post_roles_permissions db u body"
proof (cases "checkIsAdmin db (Some u)")
  case (Inl e)
  then show ?thesis by (simp add: post_roles_permissions_eval)
next
  case (Inr q)
  show ?thesis
  proof (cases "setPermissionsSchema_parse body")
    case None
    with Inr show ?thesis by (simp add: post_roles_permissions_eval)
  next
    case (Some rp)
    obtain r perms where rp: "rp = (r, perms)" by (cases rp)
    let ?db' = "snd (create_and_fetch (permission_deleteMany db r) r (permissionsToCreate r perms))"
    have first: "post_roles_permissions db u body =
        create_and_fetch (permission_deleteMany db r) r (permissionsToCreate r perms)"
      using Inr Some rp by (simp add: post_roles_permissions_eval)
    have orgs: "organizations ?db' = organizations db"
      by (simp add: create_and_fetch_organizations permission_deleteMany_def)
    have "checkIsAdmin ?db' (Some u) = Inr q"
      using checkIsAdmin_organizations [OF orgs, of "Some u"] Inr by simp
    then have "post_roles_permissions ?db' u body =
        create_and_fetch (permission_deleteMany ?db' r) r (permissionsToCreate r perms)"
      using Some rp by (simp add: post_roles_permissions_eval)
    also have "\<dots> = create_and_fetch (permission_deleteMany db r) r (permissionsToCreate r perms)"
      by (rule create_and_fetch_twice) (simp add: permissionsToCreate_roleId)
    finally have second: "post_roles_permissions ?db' u body =
        create_and_fetch (permission_deleteMany db r) r (permissionsToCreate r perms)" .
    show ?thesis by (simp only: first second)
  qed
qed

lemma unique_permission_rows_filter:
  "unique_permission_rows ps \<Longrightarrow> unique_permission_rows (filter P ps)"
  by (simp add: unique_permission_rows_def distinct_map_filter)

lemma no_NONE_rows_filter: "no_NONE_rows ps \<Longrightarrow> no_NONE_rows (filter P ps)"
  by (simp add: no_NONE_rows_def list_all_iff)

lemma no_NONE_rows_append: "no_NONE_rows (ps @ qs) \<longleftrightarrow> no_NONE_rows ps \<and> no_NONE_rows qs"
  by (simp add: no_NONE_rows_def)

lemma create_and_fetch_permissions:
  "permissions (snd (create_and_fetch db1 r rows)) = permissions db1
   \<or> (permissions (snd (create_and_fetch db1 r rows)) = permissions db1 @ rows
      \<and> unique_permission_rows (permissions db1 @ rows))"
  by (auto simp add: create_and_fetch_def permission_createMany_def split: option.splits if_splits)

lemma post_roles_permissions_permissions:
  "permissions (snd (post_roles_permissions db u body)) = permissions db
   \<or> (\<exists>r perms. setPermissionsSchema_parse body = Some (r, perms)
        \<and> (permissions (snd (post_roles_permissions db u body)) =
             filter (\<lambda>p. rcp_roleId p \<noteq> r) (permissions db)
           \<or> permissions (snd (post_roles_permissions db u body)) =
               filter (\<lambda>p. rcp_roleId p \<noteq> r) (permissions db) @ permissionsToCreate r perms
             \<and> unique_permission_rows
                 (filter (\<lambda>p. rcp_roleId p \<noteq> r) (permissions db) @ permissionsToCreate r perms)))"
proof (cases "checkIsAdmin db (Some u)")
  case (Inl e)
  then show ?thesis by (simp add: post_roles_permissions_eval)
next
  case (Inr q)
  show ?thesis
  proof (cases "setPermissionsSchema_parse body")
    case None
    with Inr show ?thesis by (simp add: post_roles_permissions_eval)
  next
    case (Some rp)
    obtain r perms where rp: "rp = (r, perms)" by (cases rp)
    have first: "post_roles_permissions db u body =
        create_and_fetch (permission_deleteMany db r) r (permissionsToCreate r perms)"
      using Inr Some rp by (simp add: post_roles_permissions_eval)
    from create_and_fetch_permissions [of "permission_deleteMany db r" r "permissionsToCreate r perms"]
    show ?thesis
      using Some rp by (auto simp add: first permission_deleteMany_def)
  qed
qed

text \<open>
  C5.  \<^verbatim>\<open>POST /roles/permissions\<close> is idempotent: sent again with the same user and
  body on the store it left, it gives the same response and leaves the same store.
  It keeps the stored permission rows unique per (role, committee) and free of NONE
  rows.  After a call that passes the admin check and the schema, the rows of the role
  are unique per committee, none has level NONE, and each is one of the request's
  entries with a level other than NONE: an entry with level NONE leaves no row.
\<close>

theorem set_permissions_is_idempotent:
  "post_roles_permissions (snd (post_roles_permissions db u body)) u body =
     post_roles_permissions db u body
   \<and> (unique_permission_rows (permissions db) \<longrightarrow>
        unique_permission_rows (permissions (snd (post_roles_permissions db u body))))
   \<and> (no_NONE_rows (permissions db) \<longrightarrow>
        no_NONE_rows (permissions (snd (post_roles_permissions db u body))))
   \<and> (checkIsAdmin db (Some u) = Inr q \<and> setPermissionsSchema_parse body = Some (r, perms) \<longrightarrow>
        unique_permission_rows (role_rows (snd (post_roles_permissions db u body)) r)
        \<and> no_NONE_rows (role_rows (snd (post_roles_permissions db u body)) r)
        \<and> set (role_rows (snd (post_roles_permissions db u body)) r)
            \<subseteq> set (permissionsToCreate r perms))"
proof (intro conjI impI)
  show "post_roles_permissions (snd (post_roles_permissions db u body)) u body =
      post_roles_permissions db u body"
    by (rule post_roles_permissions_twice)
  note p = post_roles_permissions_permissions [of db u body]
  show "unique_permission_rows (permissions (snd (post_roles_permissions db u body)))"
    if "unique_permission_rows (permissions db)"
    using p that by (auto simp add: unique_permission_rows_filter)
  show "no_NONE_rows (permissions (snd (post_roles_permissions db u body)))"
    if "no_NONE_rows (permissions db)"
    using p that
    by (auto simp add: no_NONE_rows_filter no_NONE_rows_append permissionsToCreate_no_NONE)
  assume a: "checkIsAdmin db (Some u) = Inr q \<and> setPermissionsSchema_parse body = Some (r, perms)"
  then have first: "post_roles_permissions db u body =
      create_and_fetch (permission_deleteMany db r) r (permissionsToCreate r perms)"
    by (simp add: post_roles_permissions_eval)
  have all: "\<forall>p \<in> set (permissionsToCreate r perms). rcp_roleId p = r"
    by (simp add: permissionsToCreate_roleId)
  then have keep: "filter (\<lambda>p. rcp_roleId p = r) (permissionsToCreate r perms) =
      permissionsToCreate r perms"
    by (simp add: filter_id_conv)
  have gone: "filter (\<lambda>p. rcp_roleId p = r) (filter (\<lambda>p. rcp_roleId p \<noteq> r) ps) = []" for ps
    by (simp add: filter_empty_conv)
  from create_and_fetch_permissions [of "permission_deleteMany db r" r "permissionsToCreate r perms"]
  have rows: "role_rows (snd (post_roles_permissions db u body)) r = []
      \<or> (role_rows (snd (post_roles_permissions db u body)) r = permissionsToCreate r perms
         \<and> unique_permission_rows
             (filter (\<lambda>p. rcp_roleId p \<noteq> r) (permissions db) @ permissionsToCreate r perms))"
    by (auto simp add: first role_rows_def permission_deleteMany_def keep gone)
  then have u: "unique_permission_rows (role_rows (snd (post_roles_permissions db u body)) r)"
    by (auto simp add: unique_permission_rows_def)
  from rows have n: "no_NONE_rows (role_rows (snd (post_roles_permissions db u body)) r)"
    by (auto simp add: permissionsToCreate_no_NONE) (simp add: no_NONE_rows_def)
  from rows have s: "set (role_rows (snd (post_roles_permissions db u body)) r)
      \<subseteq> set (permissionsToCreate r perms)"
    by auto
  from u show "unique_permission_rows (role_rows (snd (post_roles_permissions db u body)) r)" .
  from n show "no_NONE_rows (role_rows (snd (post_roles_permissions db u body)) r)" .
  from s show "set (role_rows (snd (post_roles_permissions db u body)) r)
      \<subseteq> set (permissionsToCreate r perms)" .
qed

theorem set_permissions_is_idempotent_witness:
  "unique_permission_rows (permissions seed_db)
   \<and> no_NONE_rows (permissions seed_db)
   \<and> checkIsAdmin seed_db (Some ''admin'') = Inr \<lparr>req_isAdmin = True, req_userPermission = None\<rparr>
   \<and> setPermissionsSchema_parse member_request =
       Some (''member'', [(''events'', LEADER), (''marketing'', NONE), (''finance'', MEMBER)])
   \<and> role_rows (snd (post_roles_permissions seed_db ''admin'' member_request)) ''member'' =
       [\<lparr>rcp_roleId = ''member'', rcp_committeeId = ''events'', permissionLevel = LEADER\<rparr>,
        \<lparr>rcp_roleId = ''member'', rcp_committeeId = ''finance'', permissionLevel = MEMBER\<rparr>]
   \<and> post_roles_permissions (snd (post_roles_permissions seed_db ''admin'' member_request))
         ''admin'' member_request =
       post_roles_permissions seed_db ''admin'' member_request
   \<and> unique_permission_rows
        (permissions (snd (post_roles_permissions seed_db ''admin'' member_request)))
   \<and> no_NONE_rows (permissions (snd (post_roles_permissions seed_db ''admin'' member_request)))
   \<and> unique_permission_rows
        (role_rows (snd (post_roles_permissions seed_db ''admin'' member_request)) ''member'')
   \<and> no_NONE_rows
        (role_rows (snd (post_roles_permissions seed_db ''admin'' member_request)) ''member'')"
proof -
  have h1: "unique_permission_rows (permissions seed_db)"
    by (simp add: unique_permission_rows_def permission_key_def seed_db_def)
  have h2: "no_NONE_rows (permissions seed_db)"
    by (simp add: no_NONE_rows_def seed_db_def)
  have h3: "checkIsAdmin seed_db (Some ''admin'') =
      Inr \<lparr>req_isAdmin = True, req_userPermission = None\<rparr>"
    by (simp add: checkIsAdmin_def organization_findFirst_admin_def seed_db_def)
  have h4: "setPermissionsSchema_parse member_request =
      Some (''member'', [(''events'', LEADER), (''marketing'', NONE), (''finance'', MEMBER)])"
    by (simp add: setPermissionsSchema_parse_def member_request_def permissionEntry_parse_def
        parse_PermissionLevel_def)
  have rows: "role_rows (snd (post_roles_permissions seed_db ''admin'' member_request)) ''member'' =
      [\<lparr>rcp_roleId = ''member'', rcp_committeeId = ''events'', permissionLevel = LEADER\<rparr>,
       \<lparr>rcp_roleId = ''member'', rcp_committeeId = ''finance'', permissionLevel = MEMBER\<rparr>]"
    unfolding post_roles_permissions_eval h3 h4
    by (simp add: create_and_fetch_def permissionsToCreate_def
        permission_createMany_def permission_deleteMany_def unique_permission_rows_def
        permission_key_def role_findUnique_def committee_findUnique_def role_rows_def seed_db_def)
  note th = set_permissions_is_idempotent [of seed_db "''admin''" member_request
      "\<lparr>req_isAdmin = True, req_userPermission = None\<rparr>" "''member''"
      "[(''events'', LEADER), (''marketing'', NONE), (''finance'', MEMBER)]"]
  from th h1 h2 h3 h4 rows show ?thesis by blast
qed

section \<open>C6: a user with MEMBER only\<close>

text \<open>
  C6.  Let the roles of user \<open>v\<close> resolve to MEMBER on committee \<open>c\<close>, and let \<open>v\<close>
  not be the admin of the organization that owns \<open>c\<close>.  Then \<^verbatim>\<open>POST /tasks\<close> for
  \<open>c\<close> answers 403 and leaves the store as it was; \<^verbatim>\<open>PATCH /tasks/:id/status\<close> on a
  task of \<open>c\<close>, with a body that passes the schema and with the position to write (the
  body's, or the task's own when the body has none) a 32-bit integer \<open>p\<close>, succeeds
  and stores the status and \<open>p\<close>; and \<^verbatim>\<open>POST /tasks/:id/comments\<close> on a task of
  \<open>c\<close>, with a non-empty content, succeeds and appends the comment (the user row
  exists and the generated comment id is new).
\<close>

theorem member_only_user:
  assumes "highestPermission db v c = MEMBER"
    and "v \<noteq> []" and "c \<noteq> []"
    and "committee_findUnique db c = Some cm"
    and "organization_findFirst_id_admin db (committee_organizationId cm) v = None"
    and "task_findUnique db tid = Some t" and "task_committeeId t = c"
  shows "(ct_committeeId cb = Some c \<longrightarrow>
           post_tasks db v cb nid =
             (Inl (HttpError 403 ''Insufficient permissions. Leader access required.''), db))
    \<and> (updateTaskStatusSchema_parse sb = Some (st, pos)
         \<and> prisma_Int (case pos of Some n \<Rightarrow> n | None \<Rightarrow> Int_number (task_position t)) = Some p \<longrightarrow>
           patch_task_status db v tid sb =
             (Inr (t\<lparr>task_status := st, task_position := p\<rparr>),
              replace_task db tid (\<lambda>x. x\<lparr>task_status := st, task_position := p\<rparr>)))
    \<and> (commentSchema_parse content = Some str \<and> v \<in> set (users db)
         \<and> cid \<notin> set (map comment_id (comments db)) \<longrightarrow>
           post_task_comments db v tid content cid =
             (Inr \<lparr>comment_id = cid, comment_content = str, comment_taskId = tid,
                   comment_userId = v\<rparr>,
              db\<lparr>comments := comments db @
                    [\<lparr>comment_id = cid, comment_content = str, comment_taskId = tid,
                      comment_userId = v\<rparr>]\<rparr>))"
proof (intro conjI impI)
  have cm: "committee_findUnique db (task_committeeId t) = Some cm"
    using assms(4,7) by simp
  have mem: "at_least_member db v cm"
    using assms(1) committee_findUnique_id [OF assms(4)] by (simp add: at_least_member_def)
  {
    assume "ct_committeeId cb = Some c"
    from post_tasks_denied [OF assms(2,3) this, of db nid] assms(1)
    show "post_tasks db v cb nid =
        (Inl (HttpError 403 ''Insufficient permissions. Leader access required.''), db)"
      by simp
  }
  {
    assume a: "updateTaskStatusSchema_parse sb = Some (st, pos)
      \<and> prisma_Int (case pos of Some n \<Rightarrow> n | None \<Rightarrow> Int_number (task_position t)) = Some p"
    then have "updateTaskStatusSchema_parse sb = Some (st, pos)" by simp
    from patch_task_status_eval [OF this assms(6) cm, of v] mem a
    show "patch_task_status db v tid sb =
        (Inr (t\<lparr>task_status := st, task_position := p\<rparr>),
         replace_task db tid (\<lambda>x. x\<lparr>task_status := st, task_position := p\<rparr>))"
      by simp
  }
  {
    assume a: "commentSchema_parse content = Some str \<and> v \<in> set (users db)
      \<and> cid \<notin> set (map comment_id (comments db))"
    then have "commentSchema_parse content = Some str" by simp
    from post_task_comments_eval [OF this assms(6) cm, of v cid] mem a assms(6)
    show "post_task_comments db v tid content cid =
        (Inr \<lparr>comment_id = cid, comment_content = str, comment_taskId = tid,
              comment_userId = v\<rparr>,
         db\<lparr>comments := comments db @
               [\<lparr>comment_id = cid, comment_content = str, comment_taskId = tid,
                 comment_userId = v\<rparr>]\<rparr>)"
      by (simp add: comment_create_def)
  }
qed

theorem member_only_user_witness:
  "highestPermission seed_db ''bob'' ''events'' = MEMBER
   \<and> organization_findFirst_id_admin seed_db ''org-1'' ''bob'' = None
   \<and> post_tasks seed_db ''bob''
        \<lparr>ct_title = Some ''Order pizza'', ct_description = None,
         ct_committeeId = Some ''events'', ct_dueDate = None, ct_assigneeIds = None\<rparr> ''task6'' =
       (Inl (HttpError 403 ''Insufficient permissions. Leader access required.''), seed_db)
   \<and> prisma_Int (Int_number 3) = Some 3
   \<and> fst (patch_task_status seed_db ''bob'' ''task1''
             \<lparr>uts_status = Some ''DONE'', uts_position = Some (Int_number 3)\<rparr>) =
       Inr \<lparr>task_id = ''task1'', task_title = ''Plan Spring Hackathon'',
            task_description =
              Some ''Organize venue, sponsors, and schedule for the annual spring hackathon'',
            task_status = DONE, task_committeeId = ''events'', task_createdById = ''john'',
            task_dueDate = Some 1741996800000, task_position = 3\<rparr>
   \<and> fst (post_task_comments seed_db ''bob'' ''task1'' (Some ''On it.'') ''comment3'') =
       Inr \<lparr>comment_id = ''comment3'', comment_content = ''On it.'',
            comment_taskId = ''task1'', comment_userId = ''bob''\<rparr>
   \<and> map comment_id
        (comments (snd (post_task_comments seed_db ''bob'' ''task1'' (Some ''On it.'') ''comment3'')))
       = [''comment1'', ''comment2'', ''comment3'']"
proof -
  let ?t = "\<lparr>task_id = ''task1'', task_title = ''Plan Spring Hackathon'',
      task_description =
        Some ''Organize venue, sponsors, and schedule for the annual spring hackathon'',
      task_status = TODO, task_committeeId = ''events'', task_createdById = ''john'',
      task_dueDate = Some 1741996800000, task_position = 0\<rparr>"
  let ?cm = "\<lparr>committee_id = ''events'', committee_name = ''Events'',
      committee_organizationId = ''org-1''\<rparr>"
  let ?cb = "\<lparr>ct_title = Some ''Order pizza'', ct_description = None,
      ct_committeeId = Some ''events'', ct_dueDate = None, ct_assigneeIds = None\<rparr>"
  let ?sb = "\<lparr>uts_status = Some ''DONE'', uts_position = Some (Int_number 3)\<rparr>"
  have h1: "highestPermission seed_db ''bob'' ''events'' = MEMBER"
    by (simp add: highestPermission_def userRole_findMany_def seed_db_def)
  have h2: "''bob'' \<noteq> []" and h3: "''events'' \<noteq> []" by simp_all
  have h4: "committee_findUnique seed_db ''events'' = Some ?cm"
    by (simp add: committee_findUnique_def seed_db_def)
  have a: "organization_findFirst_id_admin seed_db ''org-1'' ''bob'' = None"
    by (simp add: organization_findFirst_id_admin_def seed_db_def)
  then have h5: "organization_findFirst_id_admin seed_db (committee_organizationId ?cm) ''bob'' = None"
    by simp
  have h6: "task_findUnique seed_db ''task1'' = Some ?t"
    by (simp add: task_findUnique_def seed_db_def)
  have h7: "task_committeeId ?t = ''events''" by simp
  have p0: "prisma_Int (Int_number 3) = Some 3"
    by (simp add: prisma_Int_def int32_def)
  have p1: "updateTaskStatusSchema_parse ?sb = Some (DONE, Some (Int_number 3))
      \<and> prisma_Int (case Some (Int_number 3) of Some n \<Rightarrow> n
                     | None \<Rightarrow> Int_number (task_position ?t)) = Some 3"
    by (simp add: updateTaskStatusSchema_parse_def parse_TaskStatus_def p0)
  have p2: "commentSchema_parse (Some ''On it.'') = Some ''On it.'' \<and> ''bob'' \<in> set (users seed_db)
      \<and> ''comment3'' \<notin> set (map comment_id (comments seed_db))"
    by (simp add: commentSchema_parse_def seed_db_def)
  have c: "map comment_id (comments seed_db) = [''comment1'', ''comment2'']"
    by (simp add: seed_db_def)
  have b: "ct_committeeId ?cb = Some ''events''" by simp
  note th = member_only_user [OF h1 h2 h3 h4 h5 h6 h7,
      where cb = ?cb and nid = "''task6''" and sb = ?sb and st = DONE
        and pos = "Some (Int_number 3)" and p = 3
        and content = "Some ''On it.''" and str = "''On it.''" and cid = "''comment3''"]
  from th b have r1: "post_tasks seed_db ''bob'' ?cb ''task6'' =
      (Inl (HttpError 403 ''Insufficient permissions. Leader access required.''), seed_db)"
    by blast
  from th p1 have "patch_task_status seed_db ''bob'' ''task1'' ?sb =
      (Inr (?t\<lparr>task_status := DONE, task_position := 3\<rparr>),
       replace_task seed_db ''task1'' (\<lambda>x. x\<lparr>task_status := DONE, task_position := 3\<rparr>))"
    by blast
  then have r2: "fst (patch_task_status seed_db ''bob'' ''task1'' ?sb) =
      Inr \<lparr>task_id = ''task1'', task_title = ''Plan Spring Hackathon'',
           task_description =
             Some ''Organize venue, sponsors, and schedule for the annual spring hackathon'',
           task_status = DONE, task_committeeId = ''events'', task_createdById = ''john'',
           task_dueDate = Some 1741996800000, task_position = 3\<rparr>"
    by simp
  from th p2 have r: "post_task_comments seed_db ''bob'' ''task1'' (Some ''On it.'') ''comment3'' =
      (Inr \<lparr>comment_id = ''comment3'', comment_content = ''On it.'',
            comment_taskId = ''task1'', comment_userId = ''bob''\<rparr>,
       seed_db\<lparr>comments := comments seed_db @
         [\<lparr>comment_id = ''comment3'', comment_content = ''On it.'',
           comment_taskId = ''task1'', comment_userId = ''bob''\<rparr>]\<rparr>)"
    by blast
  from r have r3: "fst (post_task_comments seed_db ''bob'' ''task1'' (Some ''On it.'') ''comment3'') =
      Inr \<lparr>comment_id = ''comment3'', comment_content = ''On it.'',
           comment_taskId = ''task1'', comment_userId = ''bob''\<rparr>"
    by simp
  from r c have r4: "map comment_id
      (comments (snd (post_task_comments seed_db ''bob'' ''task1'' (Some ''On it.'') ''comment3'')))
      = [''comment1'', ''comment2'', ''comment3'']"
    by simp
  show ?thesis
    by (intro conjI) (rule h1 a r1 p0 r2 r3 r4)+
qed

section \<open>C7: creating a task and moving it\<close>

lemma last_by_position_None: "last_by_position xs = None \<longleftrightarrow> xs = []"
  by (cases xs) (simp_all split: option.splits)

lemma last_by_position_Max:
  "last_by_position xs = Some m \<Longrightarrow>
   m \<in> set xs \<and> task_position m = Max (set (map task_position xs))"
proof (induction xs arbitrary: m)
  case Nil
  then show ?case by simp
next
  case (Cons x xs)
  show ?case
  proof (cases "last_by_position xs")
    case None
    then have "xs = []" by (simp add: last_by_position_None)
    with Cons.prems show ?thesis by simp
  next
    case (Some l)
    from Cons.IH [OF Some] have l: "l \<in> set xs"
      and lmax: "task_position l = Max (set (map task_position xs))" by simp_all
    from l have ne: "set (map task_position xs) \<noteq> {}" by auto
    have "Max (set (map task_position (x # xs))) =
        max (task_position x) (Max (set (map task_position xs)))"
      using ne by (simp add: Max_insert del: set_map)
    with Cons.prems Some l lmax show ?thesis
      by (auto split: if_splits)
  qed
qed

lemma createTaskSchema_parse_committeeId:
  "createTaskSchema_parse cb = Some d \<Longrightarrow> ct_committeeId cb = Some (ctd_committeeId d)"
  by (auto simp add: createTaskSchema_parse_def split: option.splits if_splits)

lemma highestPermission_tables:
  "userRoles db' = userRoles db \<Longrightarrow> permissions db' = permissions db \<Longrightarrow>
   highestPermission db' u c = highestPermission db u c"
  by (simp add: highestPermission_def userRole_findMany_def)

lemma at_least_member_tables:
  "userRoles db' = userRoles db \<Longrightarrow> permissions db' = permissions db \<Longrightarrow>
   organizations db' = organizations db \<Longrightarrow>
   at_least_member db' u cm = at_least_member db u cm"
  by (simp add: at_least_member_def highestPermission_def userRole_findMany_def
      organization_findFirst_id_admin_def)

lemma find_append_fresh:
  "\<forall>x \<in> set xs. \<not> P x \<Longrightarrow> P y \<Longrightarrow> find P (xs @ [y]) = Some y"
  by (induction xs) simp_all

lemma map_update_fresh:
  "\<forall>x \<in> set xs. key x \<noteq> k \<Longrightarrow> map (\<lambda>x. if key x = k then f x else x) xs = xs"
  by (induction xs) simp_all

lemma set_task_findMany_committee:
  "set (task_findMany_committee db c) = {t \<in> set (tasks db). task_committeeId t = c}"
  by (auto simp add: task_findMany_committee_def)

lemma set_getTasksByStatus:
  "set (getTasksByStatus listing s) = {t \<in> set listing. task_status t = s}"
  by (auto simp add: getTasksByStatus_def)

text \<open>
  C7.  Let user \<open>u\<close> have LEADER on committee \<open>c\<close> by a role and send
  \<^verbatim>\<open>POST /tasks\<close> for \<open>c\<close> with a body that passes the schema, such that the insertion
  meets the constraints of the schema (new task id, the committee and the users
  exist, no assignee twice), and let the positions of the tasks of \<open>c\<close> with status
  TODO be 32-bit integers below 2147483647.  Then the task is created with status TODO
  and with position one more than the greatest position among the tasks of \<open>c\<close> with
  status TODO, 0 when there are none.  When a user with at least MEMBER then moves it
  with \<^verbatim>\<open>PATCH /tasks/:id/status\<close> to DONE at a 32-bit integer position \<open>p\<close>, the
  listing \<^verbatim>\<open>GET /tasks/committee/:committeeId\<close> (for any user allowed to read it) has
  the task with status DONE and position \<open>p\<close> in its DONE column, and no task with that
  id in its TODO column.
\<close>

theorem created_task_round_trip:
  assumes "highestPermission db u c = LEADER" and "u \<noteq> []" and "c \<noteq> []"
    and "createTaskSchema_parse cb = Some d" and "ctd_committeeId d = c"
    and "nid \<notin> set (map task_id (tasks db))"
    and "committee_findUnique db c = Some cm"
    and "u \<in> set (users db)"
    and "list_all (\<lambda>a. a \<in> set (users db)) (case ctd_assigneeIds d of None \<Rightarrow> [] | Some ids \<Rightarrow> ids)"
    and "distinct (case ctd_assigneeIds d of None \<Rightarrow> [] | Some ids \<Rightarrow> ids)"
    and "list_all (\<lambda>x. - 2147483648 \<le> task_position x \<and> task_position x < 2147483647)
           (filter (\<lambda>x. task_committeeId x = c \<and> task_status x = TODO) (tasks db))"
    and "at_least_member db v cm" and "int32 p"
    and "w \<noteq> []" and "highestPermission db w c \<noteq> NONE"
  shows "\<exists>t db1 db2 listing.
      post_tasks db u cb nid = (Inr t, db1)
    \<and> task_id t = nid \<and> task_committeeId t = c \<and> task_status t = TODO
    \<and> task_title t = ctd_title d \<and> task_dueDate t = ctd_dueDate d \<and> task_createdById t = u
    \<and> task_position t =
        (if filter (\<lambda>x. task_committeeId x = c \<and> task_status x = TODO) (tasks db) = [] then 0
         else Max (set (map task_position
                (filter (\<lambda>x. task_committeeId x = c \<and> task_status x = TODO) (tasks db)))) + 1)
    \<and> task_findUnique db1 nid = Some t
    \<and> patch_task_status db1 v nid
         \<lparr>uts_status = Some ''DONE'', uts_position = Some (Int_number p)\<rparr> =
        (Inr (t\<lparr>task_status := DONE, task_position := p\<rparr>), db2)
    \<and> get_tasks_committee db2 w c = Inr listing
    \<and> t\<lparr>task_status := DONE, task_position := p\<rparr> \<in> set (getTasksByStatus listing DONE)
    \<and> nid \<notin> set (map task_id (getTasksByStatus listing TODO))"
proof -
  define col where "col = filter (\<lambda>x. task_committeeId x = c \<and> task_status x = TODO) (tasks db)"
  define position where "position =
    (case last_by_position col of Some l \<Rightarrow> task_position l + 1 | None \<Rightarrow> 0)"
  define t where "t = \<lparr>task_id = nid, task_title = ctd_title d,
    task_description = ctd_description d, task_status = TODO, task_committeeId = c,
    task_createdById = u, task_dueDate = ctd_dueDate d, task_position = position\<rparr>"
  define ids where "ids = (case ctd_assigneeIds d of None \<Rightarrow> [] | Some ids \<Rightarrow> ids)"
  define db1 where "db1 = db\<lparr>tasks := tasks db @ [t],
    assignments := assignments db @ map (\<lambda>a. \<lparr>ta_taskId = task_id t, ta_userId = a\<rparr>) ids\<rparr>"
  define f where "f = (\<lambda>x::task. x\<lparr>task_status := DONE, task_position := p\<rparr>)"
  define db2 where "db2 = replace_task db1 nid f"
  define listing where "listing = task_findMany_committee db2 c"
  have fid: "\<And>x. task_id (f x) = task_id x" by (simp add: f_def)
  have body: "or_else None (ct_committeeId cb) = Some c"
    using createTaskSchema_parse_committeeId [OF assms(4)] assms(5) by (simp add: or_else_body)
  have pos: "position = (if col = [] then 0 else Max (set (map task_position col)) + 1)"
  proof (cases "last_by_position col")
    case None
    then show ?thesis
      by (simp add: position_def last_by_position_None)
  next
    case (Some l)
    then have "col \<noteq> []"
      using last_by_position_None [of col] by simp
    with last_by_position_Max [OF Some] Some show ?thesis
      by (simp add: position_def)
  qed
  have range: "int32 position"
  proof (cases "last_by_position col")
    case None
    then show ?thesis by (simp add: position_def int32_def)
  next
    case (Some l)
    from last_by_position_Max [OF Some] have "l \<in> set col" by simp
    with assms(11) have "- 2147483648 \<le> task_position l \<and> task_position l < 2147483647"
      by (simp add: col_def list_all_iff)
    with Some show ?thesis by (simp add: position_def int32_def)
  qed
  have create: "task_create db t ids = Some db1"
    using assms(6-10) range by (simp add: task_create_def t_def db1_def ids_def)
  have post: "post_tasks db u cb nid = (Inr t, db1)"
    using middleware_eval(2) [OF assms(2,3) body, of db] assms(1,4,5) create
    by (simp add: post_tasks_def Let_def t_def [symmetric] position_def [symmetric]
        ids_def [symmetric] col_def [symmetric])
  have fresh: "\<forall>x \<in> set (tasks db). task_id x \<noteq> nid"
    using assms(6) by auto
  have find1: "task_findUnique db1 nid = Some t"
    using find_append_fresh [of "tasks db" "\<lambda>x. task_id x = nid" t] fresh
    by (simp add: task_findUnique_def db1_def t_def)
  have cm1: "committee_findUnique db1 (task_committeeId t) = Some cm"
    using assms(7) by (simp add: committee_findUnique_def db1_def t_def)
  have mem1: "at_least_member db1 v cm"
    using assms(12) at_least_member_tables [of db1 db v cm] by (simp add: db1_def)
  have parse: "updateTaskStatusSchema_parse
      \<lparr>uts_status = Some ''DONE'', uts_position = Some (Int_number p)\<rparr> =
      Some (DONE, Some (Int_number p))"
    by (simp add: updateTaskStatusSchema_parse_def parse_TaskStatus_def)
  have accepted: "prisma_Int (Int_number p) = Some p"
    using assms(13) by (simp add: prisma_Int_def)
  have patch: "patch_task_status db1 v nid
      \<lparr>uts_status = Some ''DONE'', uts_position = Some (Int_number p)\<rparr> =
      (Inr (t\<lparr>task_status := DONE, task_position := p\<rparr>), db2)"
    using patch_task_status_eval [OF parse find1 cm1, of v] mem1 accepted
    by (simp add: db2_def f_def)
  have tasks2: "tasks db2 = tasks db @ [f t]"
    using map_update_fresh [of "tasks db" task_id nid f] fresh
    by (simp add: db2_def replace_task_def db1_def t_def)
  have "highestPermission db2 w c = highestPermission db w c"
    by (rule highestPermission_tables) (simp_all add: db2_def replace_task_def db1_def)
  then have view: "get_tasks_committee db2 w c = Inr listing"
    using assms(15) by (simp add: get_tasks_committee_eval [OF assms(14,3)] listing_def)
  have done_col: "t\<lparr>task_status := DONE, task_position := p\<rparr> \<in> set (getTasksByStatus listing DONE)"
    by (simp add: set_getTasksByStatus listing_def set_task_findMany_committee tasks2 f_def t_def)
  have todo_col: "nid \<notin> set (map task_id (getTasksByStatus listing TODO))"
    using fresh
    by (auto simp add: set_getTasksByStatus listing_def set_task_findMany_committee tasks2 f_def)
  have fields: "task_id t = nid" "task_committeeId t = c" "task_status t = TODO"
    "task_title t = ctd_title d" "task_dueDate t = ctd_dueDate d" "task_createdById t = u"
    by (simp_all add: t_def)
  have tpos: "task_position t =
      (if filter (\<lambda>x. task_committeeId x = c \<and> task_status x = TODO) (tasks db) = [] then 0
       else Max (set (map task_position
              (filter (\<lambda>x. task_committeeId x = c \<and> task_status x = TODO) (tasks db)))) + 1)"
    using pos by (simp add: t_def col_def)
  from post fields tpos find1 patch view done_col todo_col show ?thesis by blast
qed

theorem created_task_round_trip_witness:
  "highestPermission board_db ''jane'' ''events'' = LEADER
   \<and> at_least_member board_db ''bob''
       \<lparr>committee_id = ''events'', committee_name = ''Events'',
        committee_organizationId = ''org-1''\<rparr>
   \<and> map (\<lambda>x. (task_id x, task_committeeId x, task_status x, task_position x)) (tasks board_db) =
       [(''task1'', ''events'', TODO, 0), (''task2'', ''marketing'', IN_PROGRESS, 0),
        (''task3'', ''marketing'', DONE, 0), (''task4'', ''finance'', TODO, 0),
        (''task5'', ''openings'', TODO, 0), (''task7'', ''events'', TODO, 3),
        (''task8'', ''events'', DONE, 7), (''task9'', ''marketing'', TODO, 9)]
   \<and> fst (post_tasks board_db ''jane'' venue_request ''task6'') =
       Inr \<lparr>task_id = ''task6'', task_title = ''Book the venue'', task_description = None,
            task_status = TODO, task_committeeId = ''events'', task_createdById = ''jane'',
            task_dueDate = Some 1740787200000, task_position = 4\<rparr>
   \<and> (\<exists>t db1 db2 listing.
         post_tasks board_db ''jane'' venue_request ''task6'' = (Inr t, db1)
       \<and> task_id t = ''task6'' \<and> task_committeeId t = ''events'' \<and> task_status t = TODO
       \<and> task_position t = 4
       \<and> task_findUnique db1 ''task6'' = Some t
       \<and> patch_task_status db1 ''bob'' ''task6''
            \<lparr>uts_status = Some ''DONE'', uts_position = Some (Int_number 5)\<rparr> =
           (Inr (t\<lparr>task_status := DONE, task_position := 5\<rparr>), db2)
       \<and> get_tasks_committee db2 ''bob'' ''events'' = Inr listing
       \<and> t\<lparr>task_status := DONE, task_position := 5\<rparr> \<in> set (getTasksByStatus listing DONE)
       \<and> ''task6'' \<notin> set (map task_id (getTasksByStatus listing TODO)))"
proof -
  let ?cm = "\<lparr>committee_id = ''events'', committee_name = ''Events'',
      committee_organizationId = ''org-1''\<rparr>"
  let ?d = "\<lparr>ctd_title = ''Book the venue'', ctd_description = None,
      ctd_committeeId = ''events'', ctd_dueDate = Some 1740787200000,
      ctd_assigneeIds = Some [''bob'']\<rparr>"
  let ?col = "filter (\<lambda>x. task_committeeId x = ''events'' \<and> task_status x = TODO) (tasks board_db)"
  have h1: "highestPermission board_db ''jane'' ''events'' = LEADER"
    by (simp add: highestPermission_def userRole_findMany_def board_db_def seed_db_def)
  have h2: "''jane'' \<noteq> []" and h3: "''events'' \<noteq> []" by simp_all
  have h4: "createTaskSchema_parse venue_request = Some ?d"
    by (simp add: createTaskSchema_parse_def venue_request_def optional_checked_def)
  have h5: "ctd_committeeId ?d = ''events''" by simp
  have h6: "''task6'' \<notin> set (map task_id (tasks board_db))"
    by (simp add: board_db_def seed_db_def)
  have h7: "committee_findUnique board_db ''events'' = Some ?cm"
    by (simp add: committee_findUnique_def board_db_def seed_db_def)
  have h8: "''jane'' \<in> set (users board_db)"
    by (simp add: board_db_def seed_db_def)
  have h9: "list_all (\<lambda>a. a \<in> set (users board_db))
      (case ctd_assigneeIds ?d of None \<Rightarrow> [] | Some ids \<Rightarrow> ids)"
    by (simp add: board_db_def seed_db_def)
  have h10: "distinct (case ctd_assigneeIds ?d of None \<Rightarrow> [] | Some ids \<Rightarrow> ids)"
    by simp
  have col: "map task_position ?col = [0, 3]"
    by (simp add: board_db_def seed_db_def)
  have h11: "list_all (\<lambda>x. - 2147483648 \<le> task_position x \<and> task_position x < 2147483647) ?col"
    by (simp add: board_db_def seed_db_def)
  have h12: "at_least_member board_db ''bob'' ?cm"
    by (simp add: at_least_member_def highestPermission_def userRole_findMany_def
        organization_findFirst_id_admin_def board_db_def seed_db_def)
  have h13: "int32 5" by (simp add: int32_def)
  have h14: "''bob'' \<noteq> []" by simp
  have h15: "highestPermission board_db ''bob'' ''events'' \<noteq> NONE"
    by (simp add: highestPermission_def userRole_findMany_def board_db_def seed_db_def)
  have all: "map (\<lambda>x. (task_id x, task_committeeId x, task_status x, task_position x))
      (tasks board_db) =
      [(''task1'', ''events'', TODO, 0), (''task2'', ''marketing'', IN_PROGRESS, 0),
       (''task3'', ''marketing'', DONE, 0), (''task4'', ''finance'', TODO, 0),
       (''task5'', ''openings'', TODO, 0), (''task7'', ''events'', TODO, 3),
       (''task8'', ''events'', DONE, 7), (''task9'', ''marketing'', TODO, 9)]"
    by (simp add: board_db_def seed_db_def)
  from col have ne: "?col \<noteq> []" by auto
  have "set (map task_position ?col) = {0, 3}"
    unfolding col by simp
  then have mx: "Max (set (map task_position ?col)) + 1 = 4"
    by simp
  from created_task_round_trip [OF h1 h2 h3 h4 h5 h6 h7 h8 h9 h10 h11 h12 h13 h14 h15]
  obtain t db1 db2 listing where
    r: "post_tasks board_db ''jane'' venue_request ''task6'' = (Inr t, db1)"
      "task_id t = ''task6''" "task_committeeId t = ''events''" "task_status t = TODO"
      "task_position t =
        (if ?col = [] then 0 else Max (set (map task_position ?col)) + 1)"
      "task_findUnique db1 ''task6'' = Some t"
      "patch_task_status db1 ''bob'' ''task6''
         \<lparr>uts_status = Some ''DONE'', uts_position = Some (Int_number 5)\<rparr> =
        (Inr (t\<lparr>task_status := DONE, task_position := 5\<rparr>), db2)"
      "get_tasks_committee db2 ''bob'' ''events'' = Inr listing"
      "t\<lparr>task_status := DONE, task_position := 5\<rparr> \<in> set (getTasksByStatus listing DONE)"
      "''task6'' \<notin> set (map task_id (getTasksByStatus listing TODO))"
    by blast
  from r(5) ne mx have p1: "task_position t = 4" by simp
  have ev: "fst (post_tasks board_db ''jane'' venue_request ''task6'') =
      Inr \<lparr>task_id = ''task6'', task_title = ''Book the venue'', task_description = None,
           task_status = TODO, task_committeeId = ''events'', task_createdById = ''jane'',
           task_dueDate = Some 1740787200000, task_position = 4\<rparr>"
    by (simp add: post_tasks_def checkCommitteePermission_def or_else_def truthy_def
        organization_findFirst_admin_def highestPermission_def userRole_findMany_def
        createTaskSchema_parse_def optional_checked_def venue_request_def
        task_create_def int32_def committee_findUnique_def board_db_def seed_db_def Let_def)
  from r p1 have ex: "\<exists>t db1 db2 listing.
         post_tasks board_db ''jane'' venue_request ''task6'' = (Inr t, db1)
       \<and> task_id t = ''task6'' \<and> task_committeeId t = ''events'' \<and> task_status t = TODO
       \<and> task_position t = 4
       \<and> task_findUnique db1 ''task6'' = Some t
       \<and> patch_task_status db1 ''bob'' ''task6''
            \<lparr>uts_status = Some ''DONE'', uts_position = Some (Int_number 5)\<rparr> =
           (Inr (t\<lparr>task_status := DONE, task_position := 5\<rparr>), db2)
       \<and> get_tasks_committee db2 ''bob'' ''events'' = Inr listing
       \<and> t\<lparr>task_status := DONE, task_position := 5\<rparr> \<in> set (getTasksByStatus listing DONE)
       \<and> ''task6'' \<notin> set (map task_id (getTasksByStatus listing TODO))"
    by blast
  show ?thesis
    by (intro conjI) (rule h1 h12 all ev ex)+
qed

section \<open>C8: one organization per admin\<close>

lemma post_organizations_conflict:
  assumes "organization_findFirst_admin db u \<noteq> None"
  shows "post_organizations db u body nid =
    (case createOrganizationSchema_parse body of
       None \<Rightarrow> (Inl zod_error, db)
     | Some d \<Rightarrow> (Inl (HttpError 400 ''Organization already exists for this user''), db))"
  using assms by (simp add: post_organizations_def split: option.splits)

lemma post_organizations_invariant:
  assumes "one_organization_per_admin db"
  shows "one_organization_per_admin (snd (post_organizations db u body nid))"
proof (cases "createOrganizationSchema_parse body")
  case None
  with assms show ?thesis by (simp add: post_organizations_def)
next
  case (Some d)
  show ?thesis
  proof (cases "organization_findFirst_admin db u")
    case (Some org)
    then have "organization_findFirst_admin db u \<noteq> None" by simp
    from post_organizations_conflict [OF this] assms show ?thesis
      by (simp split: option.splits)
  next
    case None
    then have fresh: "u \<notin> set (map adminUserId (organizations db))"
      by (auto simp add: organization_findFirst_admin_def find_None_iff)
    with assms None \<open>createOrganizationSchema_parse body = Some d\<close> show ?thesis
      by (auto simp add: post_organizations_def organization_create_def
          one_organization_per_admin_def Let_def)
  qed
qed

text \<open>
  C8.  When the user already administers an organization, \<^verbatim>\<open>POST /organizations\<close>
  answers 400 and leaves the whole store as it was; for a body that passes the schema
  the error is the conflict \<open>Organization already exists for this user\<close> (a body that
  does not pass is refused by the validation, which comes first).  So the handler keeps
  the invariant that no user administers two organizations.
\<close>

theorem second_organization_is_refused:
  "(organization_findFirst_admin db u \<noteq> None \<longrightarrow>
      snd (post_organizations db u body nid) = db
      \<and> (\<exists>msg. fst (post_organizations db u body nid) = Inl (HttpError 400 msg))
      \<and> (createOrganizationSchema_parse body \<noteq> None \<longrightarrow>
           fst (post_organizations db u body nid) =
             Inl (HttpError 400 ''Organization already exists for this user'')))
   \<and> (one_organization_per_admin db \<longrightarrow>
        one_organization_per_admin (snd (post_organizations db u body nid)))"
proof (intro conjI impI)
  assume a: "organization_findFirst_admin db u \<noteq> None"
  note e = post_organizations_conflict [OF a, of body nid]
  show "snd (post_organizations db u body nid) = db"
    by (simp add: e split: option.splits)
  show "\<exists>msg. fst (post_organizations db u body nid) = Inl (HttpError 400 msg)"
    by (simp add: e split: option.splits)
  show "fst (post_organizations db u body nid) =
      Inl (HttpError 400 ''Organization already exists for this user'')"
    if "createOrganizationSchema_parse body \<noteq> None"
    using that by (auto simp add: e)
next
  assume "one_organization_per_admin db"
  then show "one_organization_per_admin (snd (post_organizations db u body nid))"
    by (rule post_organizations_invariant)
qed

theorem second_organization_is_refused_witness:
  "organization_findFirst_admin seed_db ''admin'' \<noteq> None
   \<and> post_organizations seed_db ''admin''
        \<lparr>co_name = Some ''Robotics Club'', co_description = None, co_logoUrl = None\<rparr> ''org-3'' =
       (Inl (HttpError 400 ''Organization already exists for this user''), seed_db)
   \<and> one_organization_per_admin seed_db
   \<and> map adminUserId (organizations (snd (post_organizations seed_db ''wendy''
        \<lparr>co_name = Some ''Robotics Club'', co_description = None, co_logoUrl = None\<rparr> ''org-3''))) =
       [''admin'', ''admin2'', ''wendy'']
   \<and> one_organization_per_admin (snd (post_organizations seed_db ''wendy''
        \<lparr>co_name = Some ''Robotics Club'', co_description = None, co_logoUrl = None\<rparr> ''org-3''))"
proof -
  let ?b = "\<lparr>co_name = Some ''Robotics Club'', co_description = None, co_logoUrl = None\<rparr>"
  have h1: "organization_findFirst_admin seed_db ''admin'' \<noteq> None"
    by (simp add: organization_findFirst_admin_def seed_db_def)
  have h2: "createOrganizationSchema_parse ?b \<noteq> None"
    by (simp add: createOrganizationSchema_parse_def optional_checked_def)
  have h3: "one_organization_per_admin seed_db"
    by (simp add: one_organization_per_admin_def seed_db_def)
  have w: "map adminUserId (organizations (snd (post_organizations seed_db ''wendy'' ?b ''org-3''))) =
      [''admin'', ''admin2'', ''wendy'']"
    by (simp add: post_organizations_def createOrganizationSchema_parse_def optional_checked_def
        organization_findFirst_admin_def organization_create_def seed_db_def Let_def)
  note a = second_organization_is_refused [of seed_db "''admin''" ?b "''org-3''"]
  note b = second_organization_is_refused [of seed_db "''wendy''" ?b "''org-3''"]
  from a h1 h2 have r1: "snd (post_organizations seed_db ''admin'' ?b ''org-3'') = seed_db"
    and r2: "fst (post_organizations seed_db ''admin'' ?b ''org-3'') =
      Inl (HttpError 400 ''Organization already exists for this user'')"
    by blast+
  from r1 r2 have r: "post_organizations seed_db ''admin'' ?b ''org-3'' =
      (Inl (HttpError 400 ''Organization already exists for this user''), seed_db)"
    by (metis prod.collapse)
  from b h3 have r3: "one_organization_per_admin (snd (post_organizations seed_db ''wendy'' ?b ''org-3''))"
    by blast
  from h1 r h3 w r3 show ?thesis by blast
qed

section \<open>C9: no restriction on status transitions\<close>

text \<open>
  C9.  For a task that exists in a committee that exists, whatever its status \<open>s1\<close>,
  and for every status \<open>s2\<close>: \<^verbatim>\<open>PATCH /tasks/:id/status\<close> by a user with at least
  MEMBER on the committee succeeds and the stored task has status \<open>s2\<close>, when the
  position to write (the body's, or the task's own when the body has none) is a 32-bit
  integer; by any other user it answers 403 and writes nothing.  No pair of statuses is
  refused: the permission is the only guard on the transition.  The other way a
  permitted request fails is a position that the column does not take, which answers
  500 whatever the statuses.
\<close>

theorem any_status_transition:
  assumes "task_findUnique db tid = Some t" and "task_status t = s1"
    and "committee_findUnique db (task_committeeId t) = Some cm"
  shows "(at_least_member db u cm
          \<and> prisma_Int (case pos of Some n \<Rightarrow> n | None \<Rightarrow> Int_number (task_position t)) = Some p \<longrightarrow>
            patch_task_status db u tid \<lparr>uts_status = Some (TaskStatus_string s2), uts_position = pos\<rparr> =
              (Inr (t\<lparr>task_status := s2, task_position := p\<rparr>),
               replace_task db tid (\<lambda>x. x\<lparr>task_status := s2, task_position := p\<rparr>))
            \<and> map_option task_status
                 (task_findUnique
                    (snd (patch_task_status db u tid
                            \<lparr>uts_status = Some (TaskStatus_string s2), uts_position = pos\<rparr>)) tid)
               = Some s2)
    \<and> (\<not> at_least_member db u cm \<longrightarrow>
            patch_task_status db u tid \<lparr>uts_status = Some (TaskStatus_string s2), uts_position = pos\<rparr> =
              (Inl (HttpError 403 ''Access denied''), db))
    \<and> (at_least_member db u cm
          \<and> prisma_Int (case pos of Some n \<Rightarrow> n | None \<Rightarrow> Int_number (task_position t)) = None \<longrightarrow>
            patch_task_status db u tid \<lparr>uts_status = Some (TaskStatus_string s2), uts_position = pos\<rparr> =
              (Inl internal_error, db))"
proof -
  have p: "updateTaskStatusSchema_parse
      \<lparr>uts_status = Some (TaskStatus_string s2), uts_position = pos\<rparr> = Some (s2, pos)"
    by (simp add: updateTaskStatusSchema_parse_def)
  note e = patch_task_status_eval [OF p assms(1,3), of u]
  show ?thesis
    by (simp add: e task_findUnique_replace assms(1))
qed

theorem any_status_transition_witness:
  "at_least_member seed_db ''bob''
     \<lparr>committee_id = ''marketing'', committee_name = ''Marketing'',
      committee_organizationId = ''org-1''\<rparr>
   \<and> fst (patch_task_status seed_db ''bob'' ''task3''
             \<lparr>uts_status = Some ''TODO'', uts_position = None\<rparr>) =
       Inr \<lparr>task_id = ''task3'', task_title = ''Update social media profiles'',
            task_description = Some ''Refresh all social media bios and profile pictures'',
            task_status = TODO, task_committeeId = ''marketing'', task_createdById = ''jane'',
            task_dueDate = None, task_position = 0\<rparr>
   \<and> map_option task_status
        (task_findUnique
           (snd (patch_task_status seed_db ''bob'' ''task3''
                   \<lparr>uts_status = Some ''TODO'', uts_position = None\<rparr>)) ''task3'') = Some TODO
   \<and> \<not> at_least_member seed_db ''wendy''
       \<lparr>committee_id = ''marketing'', committee_name = ''Marketing'',
        committee_organizationId = ''org-1''\<rparr>
   \<and> patch_task_status seed_db ''wendy'' ''task3''
        \<lparr>uts_status = Some ''TODO'', uts_position = None\<rparr> =
       (Inl (HttpError 403 ''Access denied''), seed_db)
   \<and> prisma_Int (Int_number 2147483648) = None
   \<and> patch_task_status seed_db ''bob'' ''task3''
        \<lparr>uts_status = Some ''TODO'', uts_position = Some (Int_number 2147483648)\<rparr> =
       (Inl internal_error, seed_db)
   \<and> patch_task_status seed_db ''bob'' ''task3''
        \<lparr>uts_status = Some ''TODO'', uts_position = Some Non_integer\<rparr> =
       (Inl internal_error, seed_db)"
proof -
  let ?t = "\<lparr>task_id = ''task3'', task_title = ''Update social media profiles'',
      task_description = Some ''Refresh all social media bios and profile pictures'',
      task_status = DONE, task_committeeId = ''marketing'', task_createdById = ''jane'',
      task_dueDate = None, task_position = 0\<rparr>"
  let ?cm = "\<lparr>committee_id = ''marketing'', committee_name = ''Marketing'',
      committee_organizationId = ''org-1''\<rparr>"
  let ?b = "\<lambda>pos. \<lparr>uts_status = Some (TaskStatus_string TODO), uts_position = pos\<rparr>"
  have h1: "task_findUnique seed_db ''task3'' = Some ?t"
    by (simp add: task_findUnique_def seed_db_def)
  have h2: "task_status ?t = DONE" by simp
  have h3: "committee_findUnique seed_db (task_committeeId ?t) = Some ?cm"
    by (simp add: committee_findUnique_def seed_db_def)
  have m1: "at_least_member seed_db ''bob'' ?cm"
    by (simp add: at_least_member_def highestPermission_def userRole_findMany_def
        organization_findFirst_id_admin_def seed_db_def)
  have m2: "\<not> at_least_member seed_db ''wendy'' ?cm"
    by (simp add: at_least_member_def highestPermission_def userRole_findMany_def
        organization_findFirst_id_admin_def seed_db_def)
  have q0: "prisma_Int (case None of Some n \<Rightarrow> n | None \<Rightarrow> Int_number (task_position ?t)) = Some 0"
    by (simp add: prisma_Int_def int32_def)
  have big: "prisma_Int (Int_number 2147483648) = None"
    by (simp add: prisma_Int_def int32_def)
  then have q1: "prisma_Int (case Some (Int_number 2147483648) of Some n \<Rightarrow> n
      | None \<Rightarrow> Int_number (task_position ?t)) = None"
    by simp
  have q2: "prisma_Int (case Some Non_integer of Some n \<Rightarrow> n
      | None \<Rightarrow> Int_number (task_position ?t)) = None"
    by (simp add: prisma_Int_def)
  note bob = any_status_transition [OF h1 h2 h3, of "''bob''" None 0 TODO]
  note wendy = any_status_transition [OF h1 h2 h3, of "''wendy''" None 0 TODO]
  note bob_big = any_status_transition [OF h1 h2 h3, of "''bob''" "Some (Int_number 2147483648)" 0 TODO]
  note bob_frac = any_status_transition [OF h1 h2 h3, of "''bob''" "Some Non_integer" 0 TODO]
  from bob m1 q0 have "patch_task_status seed_db ''bob'' ''task3'' (?b None) =
      (Inr (?t\<lparr>task_status := TODO, task_position := 0\<rparr>),
       replace_task seed_db ''task3'' (\<lambda>x. x\<lparr>task_status := TODO, task_position := 0\<rparr>))"
    by blast
  then have r1: "fst (patch_task_status seed_db ''bob'' ''task3'' (?b None)) =
      Inr (?t\<lparr>task_status := TODO, task_position := 0\<rparr>)"
    by simp
  from bob m1 q0 have r2: "map_option task_status
      (task_findUnique (snd (patch_task_status seed_db ''bob'' ''task3'' (?b None))) ''task3'')
      = Some TODO"
    by blast
  from wendy m2 have r3: "patch_task_status seed_db ''wendy'' ''task3'' (?b None) =
      (Inl (HttpError 403 ''Access denied''), seed_db)"
    by blast
  from bob_big m1 q1 have r4: "patch_task_status seed_db ''bob'' ''task3''
      (?b (Some (Int_number 2147483648))) = (Inl internal_error, seed_db)"
    by blast
  from bob_frac m1 q2 have r5: "patch_task_status seed_db ''bob'' ''task3''
      (?b (Some Non_integer)) = (Inl internal_error, seed_db)"
    by blast
  from m1 r1 r2 m2 r3 big r4 r5 show ?thesis by simp
qed

section \<open>C10: what a status update leaves alone\<close>

text \<open>
  C10.  When \<^verbatim>\<open>PATCH /tasks/:id/status\<close> succeeds, the stored task is the one
  returned; its position is the old one when the body has no position; its id, title,
  description, due date, committee and creator are the old ones; the comments and the
  assignments are untouched, as is every other table and every other task.
\<close>

theorem status_update_frame:
  assumes "patch_task_status db u tid body = (Inr t', db')"
  shows "\<exists>t. task_findUnique db tid = Some t \<and> task_findUnique db' tid = Some t'
      \<and> (uts_position body = None \<longrightarrow> task_position t' = task_position t)
      \<and> task_id t' = task_id t \<and> task_title t' = task_title t
      \<and> task_description t' = task_description t \<and> task_dueDate t' = task_dueDate t
      \<and> task_committeeId t' = task_committeeId t \<and> task_createdById t' = task_createdById t
      \<and> comments db' = comments db \<and> assignments db' = assignments db
      \<and> db' = db\<lparr>tasks := tasks db'\<rparr>
      \<and> filter (\<lambda>x. task_id x \<noteq> tid) (tasks db') = filter (\<lambda>x. task_id x \<noteq> tid) (tasks db)"
proof -
  from assms obtain st pos where p: "updateTaskStatusSchema_parse body = Some (st, pos)"
    by (auto simp add: patch_task_status_def split: option.splits)
  then have pos: "pos = uts_position body"
    by (auto simp add: updateTaskStatusSchema_parse_def split: option.splits)
  from assms p obtain t where t: "task_findUnique db tid = Some t"
    by (auto simp add: patch_task_status_def split: option.splits)
  from assms p t obtain cm where cm: "committee_findUnique db (task_committeeId t) = Some cm"
    by (auto simp add: patch_task_status_def split: option.splits)
  note e = patch_task_status_eval [OF p t cm, of u]
  from assms e have mem: "at_least_member db u cm"
    by (auto split: if_splits)
  from assms e mem obtain q where
    q: "prisma_Int (case pos of Some n \<Rightarrow> n | None \<Rightarrow> Int_number (task_position t)) = Some q"
    by (auto split: option.splits)
  define f where "f = (\<lambda>x::task. x\<lparr>task_status := st, task_position := q\<rparr>)"
  have fid: "\<And>x. task_id (f x) = task_id x" by (simp add: f_def)
  from assms e mem q have t': "t' = f t" and db': "db' = replace_task db tid f"
    by (simp_all add: f_def)
  have "task_findUnique db' tid = Some t'"
    by (simp add: db' t' task_findUnique_replace [OF fid] t)
  moreover have "uts_position body = None \<longrightarrow> task_position t' = task_position t"
    using q by (auto simp add: t' f_def pos prisma_Int_Some)
  moreover have "filter (\<lambda>x. task_id x \<noteq> tid) (tasks db') = filter (\<lambda>x. task_id x \<noteq> tid) (tasks db)"
    unfolding db' by (rule replace_task_others [OF fid])
  moreover have "db' = db\<lparr>tasks := tasks db'\<rparr>"
    by (simp add: db' replace_task_def)
  ultimately show ?thesis
    using t by (simp add: t' f_def db' replace_task_def)
qed

theorem status_update_frame_witness:
  "fst (patch_task_status seed_db ''bob'' ''task2''
          \<lparr>uts_status = Some ''DONE'', uts_position = None\<rparr>) =
     Inr \<lparr>task_id = ''task2'', task_title = ''Design promotional posters'',
          task_description = Some ''Create eye-catching posters for upcoming events'',
          task_status = DONE, task_committeeId = ''marketing'', task_createdById = ''john'',
          task_dueDate = Some 1740009600000, task_position = 0\<rparr>
   \<and> task_findUnique
        (snd (patch_task_status seed_db ''bob'' ''task2''
                \<lparr>uts_status = Some ''DONE'', uts_position = None\<rparr>)) ''task2'' =
     Some \<lparr>task_id = ''task2'', task_title = ''Design promotional posters'',
           task_description = Some ''Create eye-catching posters for upcoming events'',
           task_status = DONE, task_committeeId = ''marketing'', task_createdById = ''john'',
           task_dueDate = Some 1740009600000, task_position = 0\<rparr>
   \<and> map_option task_position (task_findUnique seed_db ''task2'') = Some 0
   \<and> comments (snd (patch_task_status seed_db ''bob'' ''task2''
                      \<lparr>uts_status = Some ''DONE'', uts_position = None\<rparr>)) = comments seed_db
   \<and> assignments (snd (patch_task_status seed_db ''bob'' ''task2''
                      \<lparr>uts_status = Some ''DONE'', uts_position = None\<rparr>)) = assignments seed_db"
proof -
  let ?b = "\<lparr>uts_status = Some ''DONE'', uts_position = None\<rparr>"
  let ?t' = "\<lparr>task_id = ''task2'', task_title = ''Design promotional posters'',
      task_description = Some ''Create eye-catching posters for upcoming events'',
      task_status = DONE, task_committeeId = ''marketing'', task_createdById = ''john'',
      task_dueDate = Some 1740009600000, task_position = 0\<rparr>"
  have f: "fst (patch_task_status seed_db ''bob'' ''task2'' ?b) = Inr ?t'"
    by (simp add: patch_task_status_def updateTaskStatusSchema_parse_def parse_TaskStatus_def
        task_findUnique_def committee_findUnique_def organization_findFirst_id_admin_def
        userRole_findMany_def userRoles_some_def task_update_def update_fields_def
        prisma_Int_def int32_def Let_def seed_db_def)
  then have e: "patch_task_status seed_db ''bob'' ''task2'' ?b =
      (Inr ?t', snd (patch_task_status seed_db ''bob'' ''task2'' ?b))"
    by (metis prod.collapse)
  have p: "map_option task_position (task_findUnique seed_db ''task2'') = Some 0"
    by (simp add: task_findUnique_def seed_db_def)
  from status_update_frame [OF e] f p show ?thesis by auto
qed

end
